theory Spec2Isabelle
  imports Main "HOL-Library.Word"
begin

unbundle bit_operations_syntax

section \<open>Data model\<close>

text \<open>
  The wire data and the string arena are arrays of \<open>uint8\<close>; a byte is an 8-bit word.
  Integers computed by the jitted code are 64-bit signed. They are modelled as \<open>int\<close>,
  with the wrap-around written out where a value can leave its range: the accumulator
  of \<open>bulk_copy_64bytes\<close> and the narrowing conversions to \<open>int16\<close> and \<open>int32\<close>.
  Positions and lengths stay far inside 64 bits on every array that fits in memory.
\<close>

type_synonym byte = "8 word"

datatype error = ValueError | OutOfBounds | ShapeMismatch | ZeroDivisionError

definition to_int16 :: "int \<Rightarrow> int" where
  "to_int16 x = (x + 2 ^ 15) mod 2 ^ 16 - 2 ^ 15"

definition to_int32 :: "int \<Rightarrow> int" where
  "to_int32 x = (x + 2 ^ 31) mod 2 ^ 32 - 2 ^ 31"

definition to_int64 :: "int \<Rightarrow> int" where
  "to_int64 x = (x + 2 ^ 63) mod 2 ^ 64 - 2 ^ 63"

text \<open>
  Array indexing of the jitted code: a negative index counts from the end, and no
  bounds check is compiled in, so an index outside the array is an unchecked memory
  access. The model makes that access the error \<open>OutOfBounds\<close>.
\<close>

definition rd :: "'a list \<Rightarrow> int \<Rightarrow> error + 'a" where
  "rd xs i =
     (let n = int (length xs) in
      if 0 \<le> i \<and> i < n then Inr (xs ! nat i)
      else if - n \<le> i \<and> i < 0 then Inr (xs ! nat (i + n))
      else Inl OutOfBounds)"

definition wr :: "'a list \<Rightarrow> int \<Rightarrow> 'a \<Rightarrow> error + 'a list" where
  "wr xs i v =
     (let n = int (length xs) in
      if 0 \<le> i \<and> i < n then Inr (xs[nat i := v])
      else if - n \<le> i \<and> i < 0 then Inr (xs[nat (i + n) := v])
      else Inl OutOfBounds)"

section \<open>Column layout (get_column_type, get_column_length)\<close>

record ColumnInfo =
  col_name :: string
  col_type :: string
  col_length :: "int option"

definition startswith :: "string \<Rightarrow> string \<Rightarrow> bool" where
  "startswith s p = (take (length p) s = p)"

definition get_column_type :: "string \<Rightarrow> error + int" where
  "get_column_type type_name =
     (if type_name = ''integer'' then Inr 0
      else if type_name = ''numeric'' \<or> type_name = ''decimal'' then Inr 1
      else if startswith type_name ''character'' \<or> startswith type_name ''text'' then Inr 2
      else Inl ValueError)"

text \<open>\<open>int(length) if length else 256\<close>: Python takes both \<open>None\<close> and \<open>0\<close> as false.\<close>

definition get_column_length :: "string \<Rightarrow> int option \<Rightarrow> error + int" where
  "get_column_length type_name len =
     (if type_name = ''integer'' then Inr 4
      else if type_name = ''numeric'' \<or> type_name = ''decimal'' then Inr 8
      else if startswith type_name ''character'' then
        (case len of None \<Rightarrow> Inr 256 | Some n \<Rightarrow> if n \<noteq> 0 then Inr n else Inr 256)
      else if type_name = ''text'' then Inr 1024
      else Inl ValueError)"

text \<open>
  One iteration of the column loop of \<open>_initialize_device_buffers\<close>: the type tag,
  then the width; either call may raise.
\<close>

definition resolve_column :: "string \<Rightarrow> int option \<Rightarrow> error + (int \<times> int)" where
  "resolve_column type_name len =
     (case get_column_type type_name of
        Inl e \<Rightarrow> Inl e
      | Inr tag \<Rightarrow>
          (case get_column_length type_name len of
             Inl e \<Rightarrow> Inl e
           | Inr w \<Rightarrow> Inr (tag, w)))"

section \<open>Window sizing (process_table)\<close>

text \<open>Python's \<open>int.bit_length\<close> on a natural number.\<close>

fun bit_length :: "nat \<Rightarrow> nat" where
  "bit_length n = (if n = 0 then 0 else Suc (bit_length (n div 2)))"

declare bit_length.simps [simp del]

text \<open>
  Lines 469 to 479 of \<open>process_table\<close>: \<open>total_size\<close> is the byte size of the whole
  export, \<open>num_columns\<close> is \<open>len(columns)\<close> (not zero: the caller rejects a table
  without columns).
\<close>

definition avg_row_size :: "nat \<Rightarrow> nat \<Rightarrow> nat" where
  "avg_row_size total_size num_columns = total_size div num_columns"

definition adjust_chunk_size :: "nat \<Rightarrow> nat" where
  "adjust_chunk_size base_chunk_size =
     (if base_chunk_size < 512 * 1024 then 512 * 1024
      else if base_chunk_size > 2 * 1024 * 1024 then 2 * 1024 * 1024
      else push_bit (bit_length (base_chunk_size - 1)) 1)"

definition chunk_size_of :: "nat \<Rightarrow> nat \<Rightarrow> nat \<Rightarrow> nat" where
  "chunk_size_of total_size num_columns rows_per_chunk =
     adjust_chunk_size (avg_row_size total_size num_columns * rows_per_chunk)"

text \<open>
  The sizing policy in the words of the specification, for comparison: the average row
  size is the byte size divided by the number of rows, the product with the rows per
  chunk is clamped to the byte range and rounded up to a power of two.
\<close>

definition clamp_bytes :: "nat \<Rightarrow> nat" where
  "clamp_bytes b = max (512 * 1024) (min (2 * 1024 * 1024) b)"

definition spec_chunk_size :: "nat \<Rightarrow> nat \<Rightarrow> nat \<Rightarrow> nat" where
  "spec_chunk_size total_size num_rows rows_per_chunk =
     push_bit (bit_length (clamp_bytes (rows_per_chunk * (total_size div num_rows)) - 1)) 1"

section \<open>Integer decoding (check_bounds, decode_int32, the segmenter's length word)\<close>

definition check_bounds :: "byte list \<Rightarrow> int \<Rightarrow> int \<Rightarrow> bool" where
  "check_bounds data pos sz = (pos \<ge> 0 \<and> pos + sz \<le> int (length data))"

text \<open>
  \<open>((b0 & 0xFF) << 24) | ((b1 & 0xFF) << 16) | ((b2 & 0xFF) << 8) | (b3 & 0xFF)\<close>,
  the expression shared by \<open>decode_int32\<close> and by the length read of
  \<open>parse_binary_chunk\<close>.
\<close>

definition be32 :: "byte \<Rightarrow> byte \<Rightarrow> byte \<Rightarrow> byte \<Rightarrow> int" where
  "be32 b0 b1 b2 b3 =
     push_bit 24 (uint b0 AND 0xFF) OR push_bit 16 (uint b1 AND 0xFF) OR
     push_bit 8 (uint b2 AND 0xFF) OR (uint b3 AND 0xFF)"

definition rd4 :: "byte list \<Rightarrow> int \<Rightarrow> error + (byte \<times> byte \<times> byte \<times> byte)" where
  "rd4 data pos =
     (case rd data pos of Inl e \<Rightarrow> Inl e | Inr b0 \<Rightarrow>
      case rd data (pos + 1) of Inl e \<Rightarrow> Inl e | Inr b1 \<Rightarrow>
      case rd data (pos + 2) of Inl e \<Rightarrow> Inl e | Inr b2 \<Rightarrow>
      case rd data (pos + 3) of Inl e \<Rightarrow> Inl e | Inr b3 \<Rightarrow> Inr (b0, b1, b2, b3))"

definition decode_int32 :: "byte list \<Rightarrow> int \<Rightarrow> error + int" where
  "decode_int32 data pos =
     (if \<not> check_bounds data pos 4 then Inr 0
      else case rd4 data pos of
        Inl e \<Rightarrow> Inl e
      | Inr (b0, b1, b2, b3) \<Rightarrow>
          (let val = be32 b0 b1 b2 b3 in
           if val AND 0x80000000 \<noteq> 0 then Inr (- (val AND 0x7FFFFFFF)) else Inr val))"

text \<open>Lines 283 to 287 of \<open>parse_binary_chunk\<close>: the signed length of a field.\<close>

definition field_len_of :: "byte \<Rightarrow> byte \<Rightarrow> byte \<Rightarrow> byte \<Rightarrow> int" where
  "field_len_of b0 b1 b2 b3 =
     (let field_len = be32 b0 b1 b2 b3 in
      if field_len AND 0x80000000 \<noteq> 0 then - ((NOT field_len + 1) AND 0xFFFFFFFF)
      else field_len)"

text \<open>The two's-complement value of four big-endian bytes.\<close>

definition twos_complement32 :: "byte \<Rightarrow> byte \<Rightarrow> byte \<Rightarrow> byte \<Rightarrow> int" where
  "twos_complement32 b0 b1 b2 b3 =
     (let v = uint b0 * 2 ^ 24 + uint b1 * 2 ^ 16 + uint b2 * 2 ^ 8 + uint b3 in
      if v \<ge> 2 ^ 31 then v - 2 ^ 32 else v)"

section \<open>Tuple segmenter (parse_binary_chunk)\<close>

type_synonym spans = "int list \<times> int list"

text \<open>The \<open>dtype=np.int32\<close> conversion of the two lists on return.\<close>

definition as_int32_arrays :: "spans \<Rightarrow> spans" where
  "as_int32_arrays r = (map to_int32 (fst r), map to_int32 (snd r))"

definition header :: "byte list" where
  "header = [80, 71, 67, 79, 80, 89, 10, 255, 13, 10, 0]"

text \<open>
  Lines 249 to 260: the position after the optional prologue. The flags word is read
  and dropped; the extension length is \<open>np.int32\<close> of the four bytes at 15 .. 18, which
  are inside the array under the guard.
\<close>

definition skip_header :: "byte list \<Rightarrow> bool \<Rightarrow> int" where
  "skip_header chunk_array header_expected =
     (if header_expected \<and> length chunk_array \<ge> 11 then
        if take 11 chunk_array = header then
          if int (length chunk_array) \<ge> 11 + 8 then
            (let ext_len = to_int32
                 (push_bit 24 (uint (chunk_array ! 15)) OR push_bit 16 (uint (chunk_array ! 16)) OR
                  push_bit 8 (uint (chunk_array ! 17)) OR uint (chunk_array ! 18))
             in 11 + 4 + (4 + ext_len))
          else 11
        else 0
      else 0)"

text \<open>
  The \<open>for _ in range(num_fields)\<close> loop, lines 272 to 300: it either leaves the whole
  function with the spans collected so far (a field runs past the window), or falls
  through to the next tuple (all fields read, or \<open>break\<close> on fewer than four bytes left).
\<close>

datatype field_loop = Returned spans | Continue int "int list" "int list"

fun parse_fields ::
  "byte list \<Rightarrow> nat \<Rightarrow> int \<Rightarrow> int list \<Rightarrow> int list \<Rightarrow> error + field_loop" where
  "parse_fields chunk_array 0 pos field_offsets field_lengths =
     Inr (Continue pos field_offsets field_lengths)"
| "parse_fields chunk_array (Suc n) pos field_offsets field_lengths =
     (if pos + 4 > int (length chunk_array) then Inr (Continue pos field_offsets field_lengths)
      else case rd4 chunk_array pos of
        Inl e \<Rightarrow> Inl e
      | Inr (b0, b1, b2, b3) \<Rightarrow>
          if field_len_of b0 b1 b2 b3 = - 1 then
            parse_fields chunk_array n (pos + 4) (field_offsets @ [0]) (field_lengths @ [- 1])
          else if pos + 4 + field_len_of b0 b1 b2 b3 > int (length chunk_array) then
            Inr (Returned (field_offsets, field_lengths))
          else
            parse_fields chunk_array n (pos + 4 + field_len_of b0 b1 b2 b3)
              (field_offsets @ [pos + 4]) (field_lengths @ [field_len_of b0 b1 b2 b3]))"

text \<open>
  The \<open>while pos + 2 <= len(chunk_array)\<close> loop, lines 263 to 302. Nothing bounds the
  number of its iterations, so it is a partial function: \<open>None\<close> is a run that never
  returns.
\<close>

partial_function (option) parse_tuples ::
  "byte list \<Rightarrow> int \<Rightarrow> int list \<Rightarrow> int list \<Rightarrow> (error + spans) option" where
  "parse_tuples chunk_array pos field_offsets field_lengths =
     (if pos + 2 \<le> int (length chunk_array) then
        (case rd chunk_array pos of
           Inl e \<Rightarrow> Some (Inl e)
         | Inr hi \<Rightarrow>
        (case rd chunk_array (pos + 1) of
           Inl e \<Rightarrow> Some (Inl e)
         | Inr lo \<Rightarrow>
             if to_int16 (push_bit 8 (uint hi) OR uint lo) = - 1 then
               Some (Inr (field_offsets, field_lengths))
             else
               (case parse_fields chunk_array (nat (to_int16 (push_bit 8 (uint hi) OR uint lo)))
                       (pos + 2) field_offsets field_lengths of
                  Inl e \<Rightarrow> Some (Inl e)
                | Inr (Returned r) \<Rightarrow> Some (Inr r)
                | Inr (Continue pos' offs' lens') \<Rightarrow> parse_tuples chunk_array pos' offs' lens')))
      else Some (Inr (field_offsets, field_lengths)))"

definition parse_binary_chunk :: "byte list \<Rightarrow> bool \<Rightarrow> (error + spans) option" where
  "parse_binary_chunk chunk_array header_expected =
     (case parse_tuples chunk_array (skip_header chunk_array header_expected) [] [] of
        None \<Rightarrow> None
      | Some (Inl e) \<Rightarrow> Some (Inl e)
      | Some (Inr r) \<Rightarrow> Some (Inr (as_int32_arrays r)))"

section \<open>Decode kernel (bulk_copy_64bytes, decode_all_columns_kernel)\<close>

text \<open>
  A \<open>for\<close> loop over a list of indices that threads a state and stops at the first
  unchecked access; \<open>range_to n\<close> is \<open>range(n)\<close> and \<open>range_step n k\<close> is
  \<open>range(0, n, k)\<close> for a positive step.
\<close>

fun for_loop :: "'i list \<Rightarrow> ('i \<Rightarrow> 's \<Rightarrow> error + 's) \<Rightarrow> 's \<Rightarrow> error + 's" where
  "for_loop [] body s = Inr s"
| "for_loop (i # is) body s =
     (case body i s of Inl e \<Rightarrow> Inl e | Inr s' \<Rightarrow> for_loop is body s')"

definition range_to :: "int \<Rightarrow> int list" where
  "range_to n = map int [0..<nat n]"

definition range_step :: "int \<Rightarrow> nat \<Rightarrow> int list" where
  "range_step n k = map (\<lambda>q. int (q * k)) [0..<(nat n + k - 1) div k]"

text \<open>
  \<open>bulk_copy_64bytes\<close>: groups of eight bytes go through a 64-bit accumulator
  (\<open>val << 8\<close> wraps, \<open>>>\<close> is the arithmetic shift), the rest byte by byte.
\<close>

definition bulk_copy_64bytes ::
  "byte list \<Rightarrow> int \<Rightarrow> byte list \<Rightarrow> int \<Rightarrow> int \<Rightarrow> error + byte list" where
  "bulk_copy_64bytes src src_pos dst dst_pos size0 =
     (let sz = (if size0 > 64 then 64 else size0) in
      for_loop (range_step sz 8)
        (\<lambda>i dst.
           if i + 8 \<le> sz then
             (case for_loop (range_to 8)
                     (\<lambda>j val. case rd src (src_pos + i + j) of
                                 Inl e \<Rightarrow> Inl e
                               | Inr b \<Rightarrow> Inr (to_int64 (push_bit 8 val) OR uint b))
                     0 of
                Inl e \<Rightarrow> Inl e
              | Inr val \<Rightarrow>
                  for_loop (range_to 8)
                    (\<lambda>j dst. wr dst (dst_pos + i + j)
                                (word_of_int (drop_bit (nat ((7 - j) * 8)) val AND 0xFF)))
                    dst)
           else
             for_loop (range_to (sz - i))
               (\<lambda>j dst. case rd src (src_pos + i + j) of
                           Inl e \<Rightarrow> Inl e
                         | Inr b \<Rightarrow> wr dst (dst_pos + i + j) b)
               dst)
        dst)"

record device_buffers =
  int_outputs :: "int list"
  str_outputs :: "byte list"
  str_null_pos :: "int list"

text \<open>Lines 219 to 222: the index of the first zero byte, or \<open>valid_length\<close>.\<close>

fun find_null :: "byte list \<Rightarrow> int \<Rightarrow> int list \<Rightarrow> int \<Rightarrow> error + int" where
  "find_null buf dst_pos [] valid_end = Inr valid_end"
| "find_null buf dst_pos (i # is) valid_end =
     (case rd buf (dst_pos + i) of
        Inl e \<Rightarrow> Inl e
      | Inr b \<Rightarrow> if b = 0 then Inr i else find_null buf dst_pos is valid_end)"

text \<open>Lines 225 and 226: skip leading bytes up to 32.\<close>

function trim_start :: "byte list \<Rightarrow> int \<Rightarrow> int \<Rightarrow> int \<Rightarrow> error + int" where
  "trim_start buf dst_pos valid_start valid_end =
     (if valid_start < valid_end then
        (case rd buf (dst_pos + valid_start) of
           Inl e \<Rightarrow> Inl e
         | Inr b \<Rightarrow>
             if b \<le> 32 then trim_start buf dst_pos (valid_start + 1) valid_end
             else Inr valid_start)
      else Inr valid_start)"
  by pat_completeness auto
termination
  by (relation "measure (\<lambda>(buf, dst_pos, valid_start, valid_end). nat (valid_end - valid_start))")
    auto

text \<open>Lines 228 and 229: skip trailing bytes up to 32.\<close>

function trim_end :: "byte list \<Rightarrow> int \<Rightarrow> int \<Rightarrow> int \<Rightarrow> error + int" where
  "trim_end buf dst_pos valid_start valid_end =
     (if valid_end > valid_start then
        (case rd buf (dst_pos + valid_end - 1) of
           Inl e \<Rightarrow> Inl e
         | Inr b \<Rightarrow>
             if b \<le> 32 then trim_end buf dst_pos valid_start (valid_end - 1)
             else Inr valid_end)
      else Inr valid_end)"
  by pat_completeness auto
termination
  by (relation "measure (\<lambda>(buf, dst_pos, valid_start, valid_end). nat (valid_end - valid_start))")
    auto

declare trim_start.simps [simp del] trim_end.simps [simp del]

text \<open>
  Lines 206 to 236, the text cell that is not NULL: copy, find the end, trim, and the
  value for the range index. The result is the arena and that value.
\<close>

definition decode_text ::
  "byte list \<Rightarrow> int \<Rightarrow> int \<Rightarrow> int \<Rightarrow> int \<Rightarrow> byte list \<Rightarrow> error + (byte list \<times> int)" where
  "decode_text raw_data pos len max_length dst_pos arena =
     (let valid_length = min len max_length in
      case for_loop (range_step valid_length 64)
             (\<lambda>i dst. bulk_copy_64bytes raw_data (pos + i) dst (dst_pos + i)
                         (min 64 (valid_length - i)))
             arena of
        Inl e \<Rightarrow> Inl e
      | Inr arena' \<Rightarrow>
      (case find_null arena' dst_pos (range_to valid_length) valid_length of
        Inl e \<Rightarrow> Inl e
      | Inr valid_end0 \<Rightarrow>
      (case trim_start arena' dst_pos 0 valid_end0 of
        Inl e \<Rightarrow> Inl e
      | Inr valid_start \<Rightarrow>
      (case trim_end arena' dst_pos valid_start valid_end0 of
        Inl e \<Rightarrow> Inl e
      | Inr valid_end \<Rightarrow>
          if valid_end > valid_start then
            Inr (arena', to_int32 (push_bit 16 valid_start OR valid_end))
          else Inr (arena', 0)))))"

text \<open>
  The body of the column loop for one row, lines 178 to 236. The flag of the result is
  set when the thread leaves the kernel (\<open>return\<close> at line 181).
\<close>

definition decode_cell ::
  "byte list \<Rightarrow> int list \<Rightarrow> int list \<Rightarrow> int list \<Rightarrow> int list \<Rightarrow> int \<Rightarrow> int \<Rightarrow>
   int \<Rightarrow> int \<Rightarrow> device_buffers \<Rightarrow> error + (bool \<times> device_buffers)" where
  "decode_cell raw_data offs lens col_types col_lengths chunk_size num_cols row col bufs =
     (if row * num_cols + col \<ge> int (length offs) then Inr (True, bufs)
      else
      case rd offs (row * num_cols + col) of Inl e \<Rightarrow> Inl e | Inr pos \<Rightarrow>
      case rd lens (row * num_cols + col) of Inl e \<Rightarrow> Inl e | Inr len \<Rightarrow>
      case rd col_types col of Inl e \<Rightarrow> Inl e | Inr ty \<Rightarrow>
      if ty \<le> 1 then
        (if len = - 1 then
           (case wr (int_outputs bufs) (col * chunk_size + row) 0 of
              Inl e \<Rightarrow> Inl e
            | Inr out \<Rightarrow> Inr (False, bufs\<lparr>int_outputs := out\<rparr>))
         else
           (case decode_int32 raw_data pos of
              Inl e \<Rightarrow> Inl e
            | Inr val \<Rightarrow>
                (case wr (int_outputs bufs) (col * chunk_size + row) (to_int32 val) of
                   Inl e \<Rightarrow> Inl e
                 | Inr out \<Rightarrow> Inr (False, bufs\<lparr>int_outputs := out\<rparr>))))
      else
        (case rd col_lengths col of Inl e \<Rightarrow> Inl e | Inr max_length \<Rightarrow>
         if len = - 1 then
           (case wr (str_null_pos bufs) (col * chunk_size + row) 0 of
              Inl e \<Rightarrow> Inl e
            | Inr idx \<Rightarrow> Inr (False, bufs\<lparr>str_null_pos := idx\<rparr>))
         else
           (case decode_text raw_data pos len max_length
                   ((col * chunk_size + row) * max_length) (str_outputs bufs) of
              Inl e \<Rightarrow> Inl e
            | Inr (arena, v) \<Rightarrow>
                (case wr (str_null_pos bufs) (col * chunk_size + row) v of
                   Inl e \<Rightarrow> Inl e
                 | Inr idx \<Rightarrow>
                     Inr (False, bufs\<lparr>str_outputs := arena, str_null_pos := idx\<rparr>)))))"

fun kernel_cols ::
  "byte list \<Rightarrow> int list \<Rightarrow> int list \<Rightarrow> int list \<Rightarrow> int list \<Rightarrow> int \<Rightarrow> int \<Rightarrow>
   int \<Rightarrow> int list \<Rightarrow> device_buffers \<Rightarrow> error + (bool \<times> device_buffers)" where
  "kernel_cols raw_data offs lens col_types col_lengths chunk_size num_cols row [] bufs =
     Inr (False, bufs)"
| "kernel_cols raw_data offs lens col_types col_lengths chunk_size num_cols row (col # cols) bufs =
     (case decode_cell raw_data offs lens col_types col_lengths chunk_size num_cols row col bufs of
        Inl e \<Rightarrow> Inl e
      | Inr (True, bufs') \<Rightarrow> Inr (True, bufs')
      | Inr (False, bufs') \<Rightarrow>
          kernel_cols raw_data offs lens col_types col_lengths chunk_size num_cols row cols bufs')"

text \<open>
  One thread: the stride loop of lines 176 to 239, from its first row. A grid has at
  least one thread, so the stride is positive.
\<close>

function kernel_thread ::
  "byte list \<Rightarrow> int list \<Rightarrow> int list \<Rightarrow> int list \<Rightarrow> int list \<Rightarrow> int \<Rightarrow> int \<Rightarrow>
   int \<Rightarrow> int \<Rightarrow> device_buffers \<Rightarrow> error + device_buffers" where
  "kernel_thread raw_data offs lens col_types col_lengths chunk_size num_cols stride row bufs =
     (if row < chunk_size \<and> 0 < stride then
        (case kernel_cols raw_data offs lens col_types col_lengths chunk_size num_cols row
                (range_to num_cols) bufs of
           Inl e \<Rightarrow> Inl e
         | Inr (True, bufs') \<Rightarrow> Inr bufs'
         | Inr (False, bufs') \<Rightarrow>
             kernel_thread raw_data offs lens col_types col_lengths chunk_size num_cols stride
               (row + stride) bufs')
      else Inr bufs)"
  by pat_completeness auto
termination
  by (relation "measure (\<lambda>(raw_data, offs, lens, col_types, col_lengths, chunk_size, num_cols,
        stride, row, bufs). nat (chunk_size - row))") auto

declare kernel_thread.simps [simp del]

text \<open>
  The launch \<open>decode_all_columns_kernel[blocks, threads_per_block](...)\<close>. The threads
  write disjoint cells, so they are run one after the other, in the order of their
  first row \<open>blockIdx.x * blockDim.x + threadIdx.x\<close>.
\<close>

definition decode_all_columns_kernel ::
  "nat \<Rightarrow> nat \<Rightarrow> byte list \<Rightarrow> int list \<Rightarrow> int list \<Rightarrow> device_buffers \<Rightarrow>
   int list \<Rightarrow> int list \<Rightarrow> int \<Rightarrow> int \<Rightarrow> error + device_buffers" where
  "decode_all_columns_kernel blocks threads_per_block raw_data offs lens bufs
       col_types col_lengths chunk_size num_cols =
     for_loop (map int [0..<blocks * threads_per_block])
       (\<lambda>row0 b. kernel_thread raw_data offs lens col_types col_lengths chunk_size num_cols
                    (int (threads_per_block * blocks)) row0 b)
       bufs"

section \<open>Host-side collection (process_table, lines 540 to 600)\<close>

text \<open>\<open>xs[a:b]\<close> for indices that are not negative.\<close>

definition py_slice :: "'a list \<Rightarrow> int \<Rightarrow> int \<Rightarrow> 'a list" where
  "py_slice xs a b = take (nat b - nat a) (drop (nat a) xs)"

text \<open>
  \<open>bytes(valid_data).decode('utf-8', errors='replace')\<close> on bytes 32 .. 126 is the
  ASCII string; \<open>strip\<close> removes white space at both ends.
\<close>

definition decode_utf8 :: "byte list \<Rightarrow> string" where
  "decode_utf8 bs = map (\<lambda>b. char_of (unat b)) bs"

definition isspace :: "char \<Rightarrow> bool" where
  "isspace c = ((of_char c :: nat) \<in> {9, 10, 11, 12, 13, 28, 29, 30, 31, 32})"

definition strip :: "string \<Rightarrow> string" where
  "strip s = rev (dropWhile isspace (rev (dropWhile isspace s)))"

text \<open>Lines 569 to 598 for one row: \<open>row_bytes\<close> is \<open>data[row]\<close>.\<close>

definition text_of_row :: "byte list \<Rightarrow> int \<Rightarrow> string" where
  "text_of_row row_bytes null_position =
     (if null_position = 0 then ''''
      else if null_position > 0 then
        (let start_pos = drop_bit 16 null_position AND 0xFFFF;
             end_pos = null_position AND 0xFFFF in
         if end_pos > start_pos then
           (let valid_data = filter (\<lambda>b. b \<ge> 32 \<and> b \<le> 126)
                               (py_slice row_bytes start_pos end_pos) in
            if valid_data \<noteq> [] \<and> strip (decode_utf8 valid_data) \<noteq> ''''
            then strip (decode_utf8 valid_data)
            else '''')
         else '''')
      else '''')"

datatype column_data = IntColumn "int list" | StrColumn "string list"

text \<open>
  A device slice copied into a host array of \<open>n\<close> elements; \<open>copy_to_host\<close> refuses
  another size.
\<close>

definition copy_to_host :: "'a list \<Rightarrow> int \<Rightarrow> int \<Rightarrow> nat \<Rightarrow> error + 'a list" where
  "copy_to_host buf a b n =
     (if length (py_slice buf a b) = n then Inr (py_slice buf a b) else Inl ShapeMismatch)"

fun collect_columns ::
  "ColumnInfo list \<Rightarrow> int \<Rightarrow> int \<Rightarrow> int \<Rightarrow> device_buffers \<Rightarrow>
   error + (string \<times> column_data) list" where
  "collect_columns [] int_col_idx str_col_idx rows_in_chunk bufs = Inr []"
| "collect_columns (col # cols) int_col_idx str_col_idx rows_in_chunk bufs =
     (case get_column_type (col_type col) of
        Inl e \<Rightarrow> Inl e
      | Inr ty \<Rightarrow>
          if ty \<le> 1 then
            (case copy_to_host (int_outputs bufs) (int_col_idx * rows_in_chunk)
                    ((int_col_idx + 1) * rows_in_chunk) (nat rows_in_chunk) of
               Inl e \<Rightarrow> Inl e
             | Inr host_array \<Rightarrow>
                 (case collect_columns cols (int_col_idx + 1) str_col_idx rows_in_chunk bufs of
                    Inl e \<Rightarrow> Inl e
                  | Inr rest \<Rightarrow> Inr ((col_name col, IntColumn host_array) # rest)))
          else
            (case get_column_length (col_type col) (col_length col) of
               Inl e \<Rightarrow> Inl e
             | Inr len \<Rightarrow>
            (case copy_to_host (str_outputs bufs) (str_col_idx * rows_in_chunk * len)
                    ((str_col_idx + 1) * rows_in_chunk * len) (nat (rows_in_chunk * len)) of
               Inl e \<Rightarrow> Inl e
             | Inr host_array \<Rightarrow>
            (case copy_to_host (str_null_pos bufs) (str_col_idx * rows_in_chunk)
                    ((str_col_idx + 1) * rows_in_chunk) (nat rows_in_chunk) of
               Inl e \<Rightarrow> Inl e
             | Inr null_positions \<Rightarrow>
            (case collect_columns cols int_col_idx (str_col_idx + 1) rows_in_chunk bufs of
               Inl e \<Rightarrow> Inl e
             | Inr rest \<Rightarrow>
                 Inr ((col_name col,
                       StrColumn (map (\<lambda>row. text_of_row
                                     (py_slice host_array (int row * len) ((int row + 1) * len))
                                     (null_positions ! row))
                                  [0..<nat rows_in_chunk])) # rest))))))"

section \<open>Chunk orchestration (ChunkConfig, PgGpuStreamProcessor)\<close>

definition rows_per_chunk_of :: "nat \<Rightarrow> nat" where
  "rows_per_chunk_of total_rows = min 4096 total_rows"

definition num_chunks_of :: "nat \<Rightarrow> nat" where
  "num_chunks_of total_rows =
     (total_rows + rows_per_chunk_of total_rows - 1) div rows_per_chunk_of total_rows"

text \<open>
  The state of the processor that \<open>_read_and_parse_chunk\<close> reads and writes: the
  in-memory export with its read position (\<open>io.BytesIO\<close>), the header flag and the
  bytes left over from the previous chunk.
\<close>

record processor =
  stream :: "byte list"
  stream_pos :: nat
  header_expected :: bool
  remaining_data :: "byte list option"

definition stream_read :: "processor \<Rightarrow> nat \<Rightarrow> byte list \<times> processor" where
  "stream_read st n =
     (take n (drop (stream_pos st) (stream st)),
      st\<lparr>stream_pos := min (length (stream st)) (stream_pos st + n)\<rparr>)"

text \<open>\<open>xs[i:]\<close>, where a negative \<open>i\<close> counts from the end.\<close>

definition py_drop :: "'a list \<Rightarrow> int \<Rightarrow> 'a list" where
  "py_drop xs i = (if i \<ge> 0 then drop (nat i) xs else drop (nat (int (length xs) + i)) xs)"

text \<open>
  The loop \<open>while attempts < max_attempts\<close> of lines 398 to 419, counted down from
  \<open>max_attempts - attempts\<close>. It returns the processor, the window and the spans of the
  last segmentation. It does not return when a segmentation does not.
\<close>

fun attempt_loop ::
  "nat \<Rightarrow> nat \<Rightarrow> processor \<Rightarrow> byte list \<Rightarrow> spans \<Rightarrow>
   (error + (processor \<times> byte list \<times> spans)) option" where
  "attempt_loop 0 chunk_size st chunk_array r = Some (Inr (st, chunk_array, r))"
| "attempt_loop (Suc k) chunk_size st chunk_array r =
     (case parse_binary_chunk chunk_array (header_expected st) of
        None \<Rightarrow> None
      | Some (Inl e) \<Rightarrow> Some (Inl e)
      | Some (Inr (offs, lens)) \<Rightarrow>
          if length offs > 0 \<and> last offs + max 0 (last lens) \<le> int (length chunk_array) then
            Some (Inr
              (if last offs + max 0 (last lens) < int (length chunk_array)
               then st\<lparr>header_expected := False,
                       remaining_data := Some (py_drop chunk_array (last offs + max 0 (last lens)))\<rparr>
               else st\<lparr>header_expected := False\<rparr>,
               chunk_array, (offs, lens)))
          else
            (case stream_read (st\<lparr>header_expected := False\<rparr>) chunk_size of
               (chunk, st') \<Rightarrow>
                 if chunk = [] then Some (Inr (st', chunk_array, (offs, lens)))
                 else attempt_loop k chunk_size st' (chunk_array @ chunk) (offs, lens)))"

text \<open>Lines 421 to 444, after the loop.\<close>

type_synonym chunk_data = "byte list \<times> int list \<times> int list \<times> nat"

definition finish_chunk :: "nat \<Rightarrow> nat \<Rightarrow> byte list \<Rightarrow> spans \<Rightarrow> error + chunk_data option" where
  "finish_chunk num_columns rows_per_chunk chunk_array r =
     (if length (fst r) = 0 then Inr None
      else if num_columns = 0 then Inl ZeroDivisionError
      else
        (let rows_in_chunk = min (length (fst r) div num_columns) rows_per_chunk in
         Inr (Some (chunk_array, take (rows_in_chunk * num_columns) (fst r),
                    take (rows_in_chunk * num_columns) (snd r), rows_in_chunk))))"

text \<open>Lines 376 to 392: the first window.\<close>

definition first_window :: "nat \<Rightarrow> processor \<Rightarrow> byte list option \<times> processor" where
  "first_window chunk_size st =
     (case remaining_data st of
        Some chunk_array \<Rightarrow> (Some chunk_array, st\<lparr>remaining_data := None\<rparr>)
      | None \<Rightarrow>
          (case stream_read st chunk_size of
             (chunk, st') \<Rightarrow>
               if chunk = [] then
                 if stream_pos st > 0 then
                   (case stream_read (st'\<lparr>stream_pos := 0\<rparr>) chunk_size of
                      (chunk', st'') \<Rightarrow>
                        if chunk' = [] then (None, st'') else (Some chunk', st''))
                 else (None, st')
               else (Some chunk, st')))"

definition read_and_parse_chunk ::
  "nat \<Rightarrow> nat \<Rightarrow> nat \<Rightarrow> processor \<Rightarrow> (error + (chunk_data option \<times> processor)) option" where
  "read_and_parse_chunk num_columns rows_per_chunk chunk_size st =
     (case first_window chunk_size st of
        (None, st') \<Rightarrow> Some (Inr (None, st'))
      | (Some chunk_array, st') \<Rightarrow>
          (case attempt_loop 3 chunk_size st' chunk_array ([], []) of
             None \<Rightarrow> None
           | Some (Inl e) \<Rightarrow> Some (Inl e)
           | Some (Inr (st'', chunk_array', r)) \<Rightarrow>
               (case finish_chunk num_columns rows_per_chunk chunk_array' r of
                  Inl e \<Rightarrow> Some (Inl e)
                | Inr c \<Rightarrow> Some (Inr (c, st'')))))"

text \<open>
  \<open>_initialize_device_buffers\<close>: tags, widths, and the three zeroed buffers for
  \<open>chunk_size\<close> rows. A buffer for a kind of column that the table does not have is
  \<open>None\<close> in the source and empty here.
\<close>

fun column_layout :: "ColumnInfo list \<Rightarrow> error + (int \<times> int) list" where
  "column_layout [] = Inr []"
| "column_layout (col # cols) =
     (case resolve_column (col_type col) (col_length col) of
        Inl e \<Rightarrow> Inl e
      | Inr tw \<Rightarrow> (case column_layout cols of Inl e \<Rightarrow> Inl e | Inr r \<Rightarrow> Inr (tw # r)))"

definition initialize_device_buffers ::
  "ColumnInfo list \<Rightarrow> nat \<Rightarrow> error + (device_buffers \<times> int list \<times> int list)" where
  "initialize_device_buffers columns chunk_size =
     (case column_layout columns of
        Inl e \<Rightarrow> Inl e
      | Inr layout \<Rightarrow>
          (let num_int_cols = length (filter (\<lambda>tw. fst tw \<le> 1) layout);
               num_str_cols = length (filter (\<lambda>tw. \<not> fst tw \<le> 1) layout);
               max_str_length = fold max (map snd (filter (\<lambda>tw. \<not> fst tw \<le> 1) layout)) 0
           in Inr (\<lparr>int_outputs = replicate (chunk_size * num_int_cols) 0,
                     str_outputs = replicate (nat (int (chunk_size * num_str_cols) * max_str_length)) 0,
                     str_null_pos = replicate (chunk_size * num_str_cols) 0\<rparr>,
                   map fst layout, map snd layout)))"

text \<open>
  The body of the chunk loop of \<open>process_table\<close> once a chunk has been read, lines 516
  to 600: the launch and the collection.
\<close>

definition decode_chunk ::
  "ColumnInfo list \<Rightarrow> int list \<Rightarrow> int list \<Rightarrow> chunk_data \<Rightarrow> device_buffers \<Rightarrow>
   error + (device_buffers \<times> (string \<times> column_data) list)" where
  "decode_chunk columns col_types col_lengths c bufs =
     (case c of (d_chunk, offs, lens, rows_in_chunk) \<Rightarrow>
        (case decode_all_columns_kernel (min 1024 (max 128 ((rows_in_chunk + 256 - 1) div 256))) 256
                d_chunk offs lens bufs col_types col_lengths (int rows_in_chunk)
                (int (length columns)) of
           Inl e \<Rightarrow> Inl e
         | Inr bufs' \<Rightarrow>
             (case collect_columns columns 0 0 (int rows_in_chunk) bufs' of
                Inl e \<Rightarrow> Inl e
              | Inr cols \<Rightarrow> Inr (bufs', cols))))"

text \<open>
  The loop \<open>for chunk_idx in range(num_chunks)\<close>, lines 503 to 609. The buffers are
  allocated once and carried from chunk to chunk. An unchecked access ends the run.
\<close>

fun chunk_loop ::
  "nat \<Rightarrow> ColumnInfo list \<Rightarrow> int list \<Rightarrow> int list \<Rightarrow> nat \<Rightarrow> nat \<Rightarrow> processor \<Rightarrow>
   device_buffers \<Rightarrow> (string \<times> column_data) list list \<Rightarrow>
   (error + (string \<times> column_data) list list) option" where
  "chunk_loop 0 columns col_types col_lengths rows_per_chunk chunk_size st bufs results =
     Some (Inr results)"
| "chunk_loop (Suc k) columns col_types col_lengths rows_per_chunk chunk_size st bufs results =
     (case read_and_parse_chunk (length columns) rows_per_chunk chunk_size st of
        None \<Rightarrow> None
      | Some (Inl e) \<Rightarrow> Some (Inl e)
      | Some (Inr (None, st')) \<Rightarrow> Some (Inr results)
      | Some (Inr (Some c, st')) \<Rightarrow>
          if snd (snd (snd c)) = 0 then
            chunk_loop k columns col_types col_lengths rows_per_chunk chunk_size st' bufs results
          else
            (case decode_chunk columns col_types col_lengths c bufs of
               Inl e \<Rightarrow> Some (Inl e)
             | Inr (bufs', cols) \<Rightarrow>
                 chunk_loop k columns col_types col_lengths rows_per_chunk chunk_size st' bufs'
                   (results @ [cols])))"

text \<open>Lines 629 to 635: the chunks of every column joined.\<close>

fun join_column :: "column_data \<Rightarrow> column_data \<Rightarrow> column_data" where
  "join_column (IntColumn xs) (IntColumn ys) = IntColumn (xs @ ys)"
| "join_column (StrColumn xs) (StrColumn ys) = StrColumn (xs @ ys)"
| "join_column c d = c"

fun final_results :: "(string \<times> column_data) list list \<Rightarrow> (string \<times> column_data) list" where
  "final_results [] = []"
| "final_results [cols] = cols"
| "final_results (cols # rest) =
     map (\<lambda>(a, b). (fst a, join_column (snd a) (snd b))) (zip cols (final_results rest))"

text \<open>
  \<open>process_table\<close> on the bytes of the export, with the configuration that
  \<open>load_table_optimized\<close> builds from the row count of the table.
\<close>

definition process_table ::
  "ColumnInfo list \<Rightarrow> nat \<Rightarrow> byte list \<Rightarrow> (error + (string \<times> column_data) list) option" where
  "process_table columns total_rows buffer =
     (if length columns = 0 \<or> rows_per_chunk_of total_rows = 0 then Some (Inl ZeroDivisionError)
      else
        (let rows_per_chunk = rows_per_chunk_of total_rows;
             chunk_size = chunk_size_of (length buffer) (length columns) rows_per_chunk in
         case initialize_device_buffers columns rows_per_chunk of
           Inl e \<Rightarrow> Some (Inl e)
         | Inr (bufs, col_types, col_lengths) \<Rightarrow>
             (case chunk_loop
                     (min (num_chunks_of total_rows) ((length buffer + chunk_size - 1) div chunk_size))
                     columns col_types col_lengths rows_per_chunk chunk_size
                     \<lparr>stream = buffer, stream_pos = 0, header_expected = True,
                      remaining_data = None\<rparr>
                     bufs [] of
                None \<Rightarrow> None
              | Some (Inl e) \<Rightarrow> Some (Inl e)
              | Some (Inr results) \<Rightarrow> Some (Inr (final_results results)))))"

section \<open>Inputs of the scenarios\<close>

text \<open>
  The stream of the first scenario: signature, flags 0, extension length 0, one tuple
  of two fields (length 4 with the integer 42, length 5 with \<open>hello\<close>), trailer -1.
\<close>

definition scenario :: "byte list" where
  "scenario =
     [80, 71, 67, 79, 80, 89, 10, 255, 13, 10, 0,
      0, 0, 0, 0,  0, 0, 0, 0,
      0, 2,  0, 0, 0, 4,  0, 0, 0, 42,  0, 0, 0, 5,  104, 101, 108, 108, 111,
      255, 255]"

definition int_text_columns :: "ColumnInfo list" where
  "int_text_columns =
     [\<lparr>col_name = ''id'', col_type = ''integer'', col_length = None\<rparr>,
      \<lparr>col_name = ''t'', col_type = ''text'', col_length = None\<rparr>]"

text \<open>The processor before its first chunk.\<close>

definition start :: "byte list \<Rightarrow> processor" where
  "start buffer =
     \<lparr>stream = buffer, stream_pos = 0, header_expected = True, remaining_data = None\<rparr>"

text \<open>The fifteen bytes of the text scenario: two spaces, \<open>pad\<close>, two spaces, a zero byte, \<open>garbage\<close>.\<close>

definition pad_field :: "byte list" where
  "pad_field = [32, 32, 112, 97, 100, 32, 32, 0, 103, 97, 114, 98, 97, 103, 101]"

text \<open>
  The export of a table with an \<open>integer\<close> column and a \<open>character(16)\<close> column and
  one row: 42 and those fifteen bytes.
\<close>

definition int_char16_columns :: "ColumnInfo list" where
  "int_char16_columns =
     [\<lparr>col_name = ''id'', col_type = ''integer'', col_length = None\<rparr>,
      \<lparr>col_name = ''c'', col_type = ''character'', col_length = Some 16\<rparr>]"

definition int_pad_stream :: "byte list" where
  "int_pad_stream =
     [80, 71, 67, 79, 80, 89, 10, 255, 13, 10, 0,
      0, 0, 0, 0,  0, 0, 0, 0,
      0, 2,  0, 0, 0, 4,  0, 0, 0, 42,  0, 0, 0, 15,
      32, 32, 112, 97, 100, 32, 32, 0, 103, 97, 114, 98, 97, 103, 101,
      255, 255]"

text \<open>
  One launch of the kernel on a window that is a single text field, for a layout of one
  text column of the given width and one row, followed by the collection of the host:
  the range index that the kernel stores and the string that the host builds from it.
\<close>

definition decode_one_text :: "int \<Rightarrow> byte list \<Rightarrow> error + (int \<times> string list)" where
  "decode_one_text width field =
     (case decode_all_columns_kernel 128 256 field [0] [int (length field)]
             \<lparr>int_outputs = [0], str_outputs = replicate (nat width) 0, str_null_pos = [0]\<rparr>
             [2] [width] 1 1 of
        Inl e \<Rightarrow> Inl e
      | Inr bufs \<Rightarrow>
          (case collect_columns
                  [\<lparr>col_name = ''c'', col_type = ''character'', col_length = Some width\<rparr>]
                  0 0 1 bufs of
             Inr [(name, StrColumn strings)] \<Rightarrow> Inr (str_null_pos bufs ! 0, strings)
           | _ \<Rightarrow> Inl ShapeMismatch))"

text \<open>
  The export of a table with an \<open>integer\<close> column and three \<open>character(8)\<close> columns and
  one row: 42, \<open>abc\<close>, NULL, \<open>de\<close>.
\<close>

definition null_text_columns :: "ColumnInfo list" where
  "null_text_columns =
     [\<lparr>col_name = ''id'', col_type = ''integer'', col_length = None\<rparr>,
      \<lparr>col_name = ''a'', col_type = ''character'', col_length = Some 8\<rparr>,
      \<lparr>col_name = ''b'', col_type = ''character'', col_length = Some 8\<rparr>,
      \<lparr>col_name = ''c'', col_type = ''character'', col_length = Some 8\<rparr>]"

definition null_text_stream :: "byte list" where
  "null_text_stream =
     [80, 71, 67, 79, 80, 89, 10, 255, 13, 10, 0,
      0, 0, 0, 0,  0, 0, 0, 0,
      0, 4,  0, 0, 0, 4,  0, 0, 0, 42,  0, 0, 0, 3,  97, 98, 99,
      0xFF, 0xFF, 0xFF, 0xFF,  0, 0, 0, 2,  100, 101,
      255, 255]"

text \<open>
  The export of a table with a \<open>character(8)\<close> column and three \<open>integer\<close> columns and
  one row: \<open>abc\<close>, 42, NULL, 7.
\<close>

definition null_int_columns :: "ColumnInfo list" where
  "null_int_columns =
     [\<lparr>col_name = ''a'', col_type = ''character'', col_length = Some 8\<rparr>,
      \<lparr>col_name = ''m'', col_type = ''integer'', col_length = None\<rparr>,
      \<lparr>col_name = ''n'', col_type = ''integer'', col_length = None\<rparr>,
      \<lparr>col_name = ''k'', col_type = ''integer'', col_length = None\<rparr>]"

definition null_int_stream :: "byte list" where
  "null_int_stream =
     [80, 71, 67, 79, 80, 89, 10, 255, 13, 10, 0,
      0, 0, 0, 0,  0, 0, 0, 0,
      0, 4,  0, 0, 0, 3,  97, 98, 99,  0, 0, 0, 4,  0, 0, 0, 42,
      0xFF, 0xFF, 0xFF, 0xFF,  0, 0, 0, 4,  0, 0, 0, 7,
      255, 255]"

text \<open>
  A window that ends inside the second field of a tuple of two: field count 2, a field
  of length 1, then a length word 5 with one byte left.
\<close>

definition partial_row_window :: "byte list" where
  "partial_row_window = [0, 2,  0, 0, 0, 1,  7,  0, 0, 0, 5,  1]"

text \<open>A first window without the signature: one tuple of one field of length 1.\<close>

definition unsigned_window :: "byte list" where
  "unsigned_window = [0, 1,  0, 0, 0, 1,  7]"

text \<open>A tuple of one field whose length word is -6.\<close>

definition looping :: "byte list" where
  "looping = [0, 1,  0xFF, 0xFF, 0xFF, 0xFA]"

section \<open>Properties of the integer decode\<close>

lemma rd_in_range: "0 \<le> i \<Longrightarrow> i < int (length xs) \<Longrightarrow> rd xs i = Inr (xs ! nat i)"
  by (simp add: rd_def)

lemma rd4_in_range:
  assumes "0 \<le> pos" and "pos + 4 \<le> int (length data)"
  shows "rd4 data pos =
    Inr (data ! nat pos, data ! nat (pos + 1), data ! nat (pos + 2), data ! nat (pos + 3))"
  using assms by (simp add: rd4_def rd_in_range)

text \<open>
  C10: \<open>decode_int32\<close> never performs an unchecked access: on every array and every
  position it returns a value, and that value is 0 whenever the four bytes at the
  position do not lie inside the array.
\<close>

theorem decode_int32_total:
  "(\<exists>v. decode_int32 data pos = Inr v) \<and>
   (pos < 0 \<or> int (length data) < pos + 4 \<longrightarrow> decode_int32 data pos = Inr 0)"
proof (cases "check_bounds data pos 4")
  case True
  then have "0 \<le> pos" and "pos + 4 \<le> int (length data)"
    by (simp_all add: check_bounds_def)
  then show ?thesis
    using True by (simp add: decode_int32_def rd4_in_range Let_def)
next
  case False
  then show ?thesis by (simp add: decode_int32_def)
qed

theorem decode_int32_total_witness:
  "int (length [1, 2 :: byte]) < 0 + 4 \<and> decode_int32 [1, 2] 0 = Inr 0"
  using decode_int32_total [of "[1, 2]" 0] by simp

subsection \<open>The value of the four bytes\<close>

lemma uint_and_ff: "uint (b :: byte) AND 0xFF = uint b"
proof -
  have "uint b AND mask 8 = uint b"
    by (simp only: take_bit_eq_mask [symmetric])
       (simp add: take_bit_int_eq_self_iff uint_lt2p [of b, simplified])
  then show ?thesis by (simp add: mask_eq_exp_minus_1)
qed

lemma or_push_add:
  fixes x y :: int
  assumes "0 \<le> y" "y < 2 ^ n"
  shows "push_bit n x OR y = x * 2 ^ n + y"
proof -
  have "concat_bit n y x = take_bit n y + push_bit n x"
    by (rule concat_bit_eq)
  moreover have "take_bit n y = y" using assms by (simp add: take_bit_int_eq_self)
  ultimately show ?thesis
    by (simp add: concat_bit_def push_bit_eq_mult or.commute)
qed

lemma byte_range: "0 \<le> uint (b :: byte) \<and> uint b < 256"
  using uint_lt2p [of b] by simp

lemma be32_value:
  "be32 b0 b1 b2 b3 = uint b0 * 2 ^ 24 + uint b1 * 2 ^ 16 + uint b2 * 2 ^ 8 + uint b3"
proof -
  note r = byte_range [of b0] byte_range [of b1] byte_range [of b2] byte_range [of b3]
  have 1: "push_bit 8 (uint b2) OR uint b3 = uint b2 * 2 ^ 8 + uint b3"
    using r by (intro or_push_add) simp_all
  have 2: "push_bit 16 (uint b1) OR (uint b2 * 2 ^ 8 + uint b3)
      = uint b1 * 2 ^ 16 + (uint b2 * 2 ^ 8 + uint b3)"
    using r by (intro or_push_add) simp_all
  have 3: "push_bit 24 (uint b0) OR (uint b1 * 2 ^ 16 + (uint b2 * 2 ^ 8 + uint b3))
      = uint b0 * 2 ^ 24 + (uint b1 * 2 ^ 16 + (uint b2 * 2 ^ 8 + uint b3))"
    using r by (intro or_push_add) simp_all
  show ?thesis
    unfolding be32_def uint_and_ff 1 2 3 by simp
qed

lemma be32_range: "0 \<le> be32 b0 b1 b2 b3 \<and> be32 b0 b1 b2 b3 < 2 ^ 32"
  using byte_range [of b0] byte_range [of b1] byte_range [of b2] byte_range [of b3]
  unfolding be32_value by simp

lemma top_bit_iff:
  fixes v :: int
  assumes "0 \<le> v" "v < 2 ^ 32"
  shows "(v AND 0x80000000 \<noteq> 0) = (2 ^ 31 \<le> v)"
proof -
  have "(v AND 2 ^ 31 \<noteq> 0) = bit v 31"
    by (simp only: and_exp_eq_0_iff_not_bit) simp
  also have "\<dots> = odd (v div 2 ^ 31)"
    by (simp only: bit_iff_odd)
  also have "\<dots> = (2 ^ 31 \<le> v)"
  proof (cases "2 ^ 31 \<le> v")
    case True
    then have "v div 2 ^ 31 = 1" using assms by simp
    then show ?thesis using True by simp
  next
    case False
    then have "v div 2 ^ 31 = 0" using assms by simp
    then show ?thesis using False by simp
  qed
  finally show ?thesis by simp
qed

lemma low31:
  fixes v :: int
  assumes "2 ^ 31 \<le> v" "v < 2 ^ 32"
  shows "v AND 0x7FFFFFFF = v - 2 ^ 31"
proof -
  have "v AND mask 31 = v mod 2 ^ 31"
    by (simp only: take_bit_eq_mask [symmetric] take_bit_eq_mod)
  moreover have "v mod 2 ^ 31 = v - 2 ^ 31"
  proof -
    have "v mod 2 ^ 31 = (v - 2 ^ 31) mod 2 ^ 31" by (simp only: minus_mod_self2)
    also have "\<dots> = v - 2 ^ 31" using assms by (intro mod_pos_pos_trivial) simp_all
    finally show ?thesis .
  qed
  moreover have "mask 31 = (0x7FFFFFFF :: int)" by (simp add: mask_eq_exp_minus_1)
  ultimately show ?thesis by (simp only:)
qed

lemma neg_mask32:
  fixes v :: int
  assumes "2 ^ 31 \<le> v" "v < 2 ^ 32"
  shows "(NOT v + 1) AND 0xFFFFFFFF = 2 ^ 32 - v"
proof -
  have "NOT v + 1 = - v" by (simp add: minus_eq_not_plus_1)
  moreover have "(- v) AND mask 32 = (- v) mod 2 ^ 32"
    by (simp only: take_bit_eq_mask [symmetric] take_bit_eq_mod)
  moreover have "(- v) mod 2 ^ 32 = 2 ^ 32 - v"
  proof -
    have "(- v) mod 2 ^ 32 = (- v + 2 ^ 32) mod 2 ^ 32" by simp
    also have "\<dots> = - v + 2 ^ 32" using assms by (intro mod_pos_pos_trivial) simp_all
    finally show ?thesis by simp
  qed
  ultimately show ?thesis by (simp add: mask_eq_exp_minus_1)
qed

text \<open>
  The length read of the segmenter is the two's-complement value of the four bytes,
  for all bytes.
\<close>

lemma field_len_of_twos_complement:
  "field_len_of b0 b1 b2 b3 = twos_complement32 b0 b1 b2 b3"
proof -
  define v where "v = be32 b0 b1 b2 b3"
  have r: "0 \<le> v" "v < 2 ^ 32" using be32_range [of b0 b1 b2 b3] by (simp_all add: v_def)
  have v: "v = uint b0 * 2 ^ 24 + uint b1 * 2 ^ 16 + uint b2 * 2 ^ 8 + uint b3"
    by (simp only: v_def be32_value)
  have t: "(v AND 0x80000000 \<noteq> 0) = (2 ^ 31 \<le> v)"
    using r by (rule top_bit_iff)
  have "field_len_of b0 b1 b2 b3 = (if 2 ^ 31 \<le> v then - ((NOT v + 1) AND 0xFFFFFFFF) else v)"
    by (simp only: field_len_of_def Let_def v_def [symmetric] t)
  also have "\<dots> = (if 2 ^ 31 \<le> v then v - 2 ^ 32 else v)"
    using r neg_mask32 [of v] by simp
  also have "\<dots> = twos_complement32 b0 b1 b2 b3"
    by (simp only: twos_complement32_def Let_def v [symmetric])
  finally show ?thesis .
qed

text \<open>
  \<open>decode_int32\<close> negates the low 31 bits instead: with the top bit set it returns
  \<open>2^31 - v\<close> where two's complement is \<open>v - 2^32\<close>.
\<close>

lemma decode_int32_value:
  assumes "0 \<le> pos" "pos + 4 \<le> int (length data)"
  shows "decode_int32 data pos =
    (let v = be32 (data ! nat pos) (data ! nat (pos + 1)) (data ! nat (pos + 2))
               (data ! nat (pos + 3))
     in Inr (if 2 ^ 31 \<le> v then 2 ^ 31 - v else v))"
proof -
  define v where "v = be32 (data ! nat pos) (data ! nat (pos + 1)) (data ! nat (pos + 2))
    (data ! nat (pos + 3))"
  have r: "0 \<le> v" "v < 2 ^ 32" using be32_range by (simp_all add: v_def)
  have t: "(v AND 0x80000000 \<noteq> 0) = (2 ^ 31 \<le> v)"
    using r by (rule top_bit_iff)
  have cb: "check_bounds data pos 4" using assms by (simp add: check_bounds_def)
  have "decode_int32 data pos = (if 2 ^ 31 \<le> v then Inr (- (v AND 0x7FFFFFFF)) else Inr v)"
    by (simp only: decode_int32_def cb rd4_in_range [OF assms] Let_def v_def [symmetric] t
        not_True_eq_False if_False sum.case prod.case)
  also have "\<dots> = Inr (if 2 ^ 31 \<le> v then 2 ^ 31 - v else v)"
    using r low31 [of v] by simp
  finally show ?thesis by (simp only: Let_def v_def)
qed

text \<open>
  C2: on the bytes FF FF FF FF the length read of the segmenter gives -1, the
  two's-complement value, and \<open>decode_int32\<close> gives -2147483647: the two reads do not
  agree, and \<open>decode_int32\<close> is not two's complement.
\<close>

theorem decode_int32_sign_magnitude:
  "decode_int32 [0xFF, 0xFF, 0xFF, 0xFF] 0 = Inr (- 2147483647) \<and>
   field_len_of 0xFF 0xFF 0xFF 0xFF = - 1 \<and>
   twos_complement32 0xFF 0xFF 0xFF 0xFF = - 1"
  unfolding twos_complement32_def Let_def
  by (simp add: decode_int32_def check_bounds_def rd4_def rd_def field_len_of_def be32_def)

section \<open>Properties of the column layout\<close>



text \<open>A length of 0, which the catalogue does not report, gives the default width.\<close>

lemma column_length_zero_default:
  "resolve_column ''character'' (Some 0) = Inr (2, 256)"
  by (simp add: resolve_column_def get_column_type_def get_column_length_def startswith_def)

section \<open>Properties of the window sizing\<close>

lemma bit_length_pos: "0 < m \<Longrightarrow> bit_length m = Suc (bit_length (m div 2))"
  by (subst bit_length.simps) simp

lemma bit_length_bounds:
  "n < 2 ^ bit_length n \<and> (0 < n \<longrightarrow> 2 ^ (bit_length n - 1) \<le> n)"
proof (induction n rule: bit_length.induct)
  case (1 n)
  show ?case
  proof (cases "n = 0")
    case True
    then show ?thesis by (simp add: bit_length.simps)
  next
    case False
    define m where "m = n div 2"
    have ih: "m < 2 ^ bit_length m" "0 < m \<longrightarrow> 2 ^ (bit_length m - 1) \<le> m"
      using 1 False by (simp_all add: m_def)
    have bl: "bit_length n = Suc (bit_length m)"
      using False by (simp add: bit_length_pos m_def)
    have "n < 2 * 2 ^ bit_length m" using ih(1) by (simp add: m_def)
    moreover have "2 ^ bit_length m \<le> n"
    proof (cases "m = 0")
      case True
      then show ?thesis using False by (simp add: bit_length.simps)
    next
      case m0: False
      then have "bit_length m = Suc (bit_length m - 1)"
        by (simp add: bit_length_pos)
      then have "2 ^ bit_length m = 2 * 2 ^ (bit_length m - 1)"
        by (metis power_Suc)
      also have "\<dots> \<le> 2 * m" using ih(2) m0 by simp
      also have "\<dots> \<le> n" by (simp add: m_def)
      finally show ?thesis .
    qed
    ultimately show ?thesis by (simp add: bl)
  qed
qed

lemma bit_length_512K: "bit_length 524287 = 19"
  by (simp add: bit_length.simps)

lemma bit_length_2M: "bit_length 2097151 = 21"
  by (simp add: bit_length.simps)

text \<open>
  The part of the policy that the code has: its three-way branch is the clamp to
  512 KiB .. 2 MiB followed by the least power of two that is not smaller.
\<close>

lemma adjust_chunk_size_clamp:
  "adjust_chunk_size b = 2 ^ bit_length (clamp_bytes b - 1)"
  using bit_length_512K bit_length_2M
  by (simp add: adjust_chunk_size_def clamp_bytes_def push_bit_eq_mult min_def max_def)

lemma adjust_chunk_size_bounds:
  "clamp_bytes b \<le> adjust_chunk_size b \<and> adjust_chunk_size b < 2 * clamp_bytes b"
proof -
  have c: "0 < clamp_bytes b" by (simp add: clamp_bytes_def)
  define m where "m = clamp_bytes b - 1"
  have m: "clamp_bytes b = Suc m" using c by (simp add: m_def)
  have 1: "m < 2 ^ bit_length m" using bit_length_bounds [of m] by simp
  have 2: "2 ^ bit_length m \<le> 2 * m + 1"
  proof (cases "m = 0")
    case True
    then show ?thesis by (simp add: bit_length.simps)
  next
    case False
    then have "2 ^ (bit_length m - 1) \<le> m" using bit_length_bounds [of m] by simp
    moreover have "bit_length m = Suc (bit_length m - 1)"
      using False by (simp add: bit_length_pos)
    ultimately have "2 ^ bit_length m \<le> 2 * m" by (metis power_Suc mult_le_mono2)
    then show ?thesis by simp
  qed
  show ?thesis
    using 1 2 unfolding adjust_chunk_size_clamp m_def [symmetric] m by simp
qed

text \<open>
  C8: an export of 1000000 rows of two integer columns has 18000021 bytes, 18 per row.
  With 4096 rows per chunk the policy of the specification gives a window of 512 KiB;
  the code divides the byte size by the number of columns, not of rows, and gives
  2 MiB.
\<close>

theorem chunk_size_divides_by_columns:
  "chunk_size_of 18000021 2 4096 = 2097152 \<and>
   spec_chunk_size 18000021 1000000 4096 = 524288"
  by (simp add: chunk_size_of_def avg_row_size_def adjust_chunk_size_def spec_chunk_size_def
      clamp_bytes_def bit_length_512K)

section \<open>Properties of the segmenter and of the orchestrator\<close>

text \<open>Unfolding a loop at a numeral count.\<close>

lemmas parse_fields_numeral =
  parse_fields.simps(2) [of _ "pred_numeral k", folded numeral_eq_Suc] for k

lemmas attempt_loop_numeral =
  attempt_loop.simps(2) [of "pred_numeral k", folded numeral_eq_Suc] for k

lemmas parse_eval = parse_binary_chunk_def skip_header_def header_def parse_tuples.simps rd_def
  rd4_def to_int16_def to_int32_def field_len_of_def be32_def as_int32_arrays_def
  parse_fields_numeral

lemma parse_partial:
  "parse_binary_chunk partial_row_window False = Some (Inr ([6], [1]))"
  by (simp add: partial_row_window_def parse_eval)

text \<open>
  C3: on the window of twelve bytes that ends inside the second field of a row of two
  columns, the segmenter returns one span, the first field of that row: the row is not
  rolled back and the length is not a multiple of 2. The orchestrator then finds zero
  whole rows and keeps as leftover the bytes after that first field, inside the row.
\<close>

theorem partial_row_emitted:
  "parse_binary_chunk partial_row_window False = Some (Inr ([6], [1])) \<and>
   \<not> 2 dvd length [6 :: int] \<and>
   read_and_parse_chunk 2 4096 524288
     \<lparr>stream = [], stream_pos = 0, header_expected = False,
        remaining_data = Some partial_row_window\<rparr> =
   Some (Inr (Some (partial_row_window, [], [], 0),
     \<lparr>stream = [], stream_pos = 0, header_expected = False,
        remaining_data = Some [0, 0, 0, 5, 1]\<rparr>))"
  using parse_partial
  by (simp add: read_and_parse_chunk_def first_window_def attempt_loop_numeral finish_chunk_def
      py_drop_def) (simp add: partial_row_window_def)

text \<open>
  C4 (as amended): a first window that does not begin with the signature raises no
  error; it is segmented from its first byte, exactly as a later window is.
\<close>

theorem missing_signature_segmented:
  "\<not> (11 \<le> length w \<and> take 11 w = header) \<Longrightarrow>
   parse_binary_chunk w True = parse_binary_chunk w False"
  by (auto simp add: parse_binary_chunk_def skip_header_def)

theorem missing_signature_segmented_witness:
  "\<not> (11 \<le> length unsigned_window \<and> take 11 unsigned_window = header) \<and>
   parse_binary_chunk unsigned_window True = parse_binary_chunk unsigned_window False"
  using missing_signature_segmented [of unsigned_window] by (simp add: unsigned_window_def)

text \<open>A first window without the signature from which a row is segmented.\<close>

theorem missing_signature_counterexample:
  "take 11 unsigned_window \<noteq> header \<and>
  parse_binary_chunk unsigned_window True = Some (Inr ([6], [1]))"
  by (simp add: unsigned_window_def parse_eval)

text \<open>
  The segmenter never returns on the tuple whose only field has length -6: the six
  bytes read move the position back by six, to the start of the same tuple.
\<close>

lemma parse_tuples_looping:
  assumes "parse_tuples c p a b = Some y"
  shows "c = looping \<longrightarrow> p = 0 \<longrightarrow> False"
proof (rule parse_tuples.raw_induct
    [where P = "\<lambda>c p a b y. c = looping \<longrightarrow> p = 0 \<longrightarrow> False", OF _ assms])
  fix f :: "byte list \<Rightarrow> int \<Rightarrow> int list \<Rightarrow> int list \<Rightarrow> (error + spans) option"
    and c p a b y
  assume ih: "\<And>c p a b y. f c p a b = Some y \<Longrightarrow> c = looping \<longrightarrow> p = 0 \<longrightarrow> False"
  assume step: "(if p + 2 \<le> int (length c)
      then case rd c p of Inl e \<Rightarrow> Some (Inl e)
           | Inr hi \<Rightarrow>
               case rd c (p + 1) of Inl e \<Rightarrow> Some (Inl e)
               | Inr lo \<Rightarrow>
                   if to_int16 (push_bit 8 (uint hi) OR uint lo) = - 1
                   then Some (Inr (a, b))
                   else case parse_fields c (nat (to_int16 (push_bit 8 (uint hi) OR uint lo)))
                              (p + 2) a b of
                        Inl e \<Rightarrow> Some (Inl e)
                        | Inr (Returned r) \<Rightarrow> Some (Inr r)
                        | Inr (Continue pos' offs' lens') \<Rightarrow> f c pos' offs' lens'
      else Some (Inr (a, b))) = Some y"
  show "c = looping \<longrightarrow> p = 0 \<longrightarrow> False"
  proof (intro impI)
    assume c: "c = looping" and p: "p = 0"
    have "f looping 0 (a @ [6]) (b @ [- 6]) = Some y"
      using step unfolding c p looping_def
      by (simp add: rd_def rd4_def to_int16_def field_len_of_def be32_def)
    then show False using ih by blast
  qed
qed

lemma parse_looping: "parse_binary_chunk looping h = None"
proof -
  have "parse_tuples looping 0 [] [] = None"
    using parse_tuples_looping [of looping 0 "[]" "[]"]
    by (cases "parse_tuples looping 0 [] []") auto
  moreover have "skip_header looping h = 0"
    by (simp add: skip_header_def looping_def)
  ultimately show ?thesis by (simp add: parse_binary_chunk_def)
qed

text \<open>
  The retry loop itself is bounded. It fails to return only when the segmentation of a
  window does: of the window it was given, or of that window with at most one read
  block added for each attempt.
\<close>

lemma stream_read_length: "length (fst (stream_read st n)) \<le> n"
  by (simp add: stream_read_def)

lemma attempt_loop_diverges_in_parse:
  "attempt_loop k chunk_size st w r = None \<Longrightarrow>
   \<exists>w' h. take (length w) w' = w \<and> length w' \<le> length w + k * chunk_size \<and>
          (h = header_expected st \<or> h = False) \<and> parse_binary_chunk w' h = None"
proof (induction k arbitrary: st w r)
  case 0
  then show ?case by simp
next
  case (Suc k)
  show ?case
  proof (cases "parse_binary_chunk w (header_expected st)")
    case None
    then have "take (length w) w = w \<and> length w \<le> length w + Suc k * chunk_size \<and>
        (header_expected st = header_expected st \<or> header_expected st = False) \<and>
        parse_binary_chunk w (header_expected st) = None"
      by simp
    then show ?thesis by blast
  next
    case (Some res)
    obtain chunk st' where rd:
      "stream_read (st\<lparr>header_expected := False\<rparr>) chunk_size = (chunk, st')"
      by (cases "stream_read (st\<lparr>header_expected := False\<rparr>) chunk_size")
    have n: "length chunk \<le> chunk_size"
      using stream_read_length [of "st\<lparr>header_expected := False\<rparr>" chunk_size] rd by simp
    have h: "header_expected st' = False"
      using rd by (auto simp: stream_read_def)
    from Suc.prems Some rd obtain r' where "attempt_loop k chunk_size st' (w @ chunk) r' = None"
      by (auto split: sum.splits prod.splits if_splits)
    from Suc.IH [OF this] h obtain w' where w': "take (length (w @ chunk)) w' = w @ chunk"
      "length w' \<le> length (w @ chunk) + k * chunk_size" "parse_binary_chunk w' False = None"
      by auto
    have "take (length w) w' = take (length w) (take (length (w @ chunk)) w')"
      by (simp add: min_def)
    then have "take (length w) w' = w"
      by (simp only: w'(1)) simp
    moreover have "length w' \<le> length w + Suc k * chunk_size"
      using w'(2) n by simp
    ultimately show ?thesis using w'(3) by blast
  qed
qed

text \<open>
  C9: on the stream of the six bytes 00 01 FF FF FF FA the read-and-parse step does not
  return, whatever the number of columns and the row capacity: the first of the three
  attempts already runs the segmenter, which loops.
\<close>

theorem read_and_parse_diverges:
  "read_and_parse_chunk num_columns rows_per_chunk 524288 (start looping) = None"
proof -
  have "first_window 524288 (start looping) = (Some looping, (start looping)\<lparr>stream_pos := 6\<rparr>)"
    by (simp add: first_window_def stream_read_def start_def looping_def)
  then show ?thesis
    by (simp add: read_and_parse_chunk_def attempt_loop_numeral parse_looping)
qed

section \<open>Properties of the decode kernel and of the collection\<close>

lemma for_loop_append:
  "for_loop (xs @ ys) body s =
     (case for_loop xs body s of Inl e \<Rightarrow> Inl e | Inr s' \<Rightarrow> for_loop ys body s')"
  by (induction xs arbitrary: s) (auto split: sum.splits)

lemma kernel_thread_idle:
  "chunk_size \<le> row \<Longrightarrow>
   kernel_thread raw_data offs lens col_types col_lengths chunk_size num_cols stride row bufs = Inr bufs"
  by (subst kernel_thread.simps) simp

lemma idle_threads:
  "\<forall>r \<in> set rows. chunk_size \<le> r \<Longrightarrow>
   for_loop rows
     (\<lambda>row0 b. kernel_thread raw_data offs lens col_types col_lengths chunk_size num_cols stride row0 b)
     bufs = Inr bufs"
  by (induction rows) (simp_all add: kernel_thread_idle)

lemma kernel_one_row:
  assumes "0 < blocks * threads_per_block"
  shows "decode_all_columns_kernel blocks threads_per_block raw_data offs lens bufs
           col_types col_lengths 1 num_cols =
         (case kernel_cols raw_data offs lens col_types col_lengths 1 num_cols 0
                 (range_to num_cols) bufs of
            Inl e \<Rightarrow> Inl e
          | Inr (ex, bufs') \<Rightarrow> Inr bufs')"
proof -
  define n where "n = blocks * threads_per_block"
  define stride where "stride = int (threads_per_block * blocks)"
  have s: "0 < stride" using assms by (simp add: stride_def mult.commute)
  have "[0..<n] = 0 # [Suc 0..<n]"
    using assms unfolding n_def by (simp add: upt_conv_Cons)
  then have split: "map int [0..<n] = [0] @ map int [Suc 0..<n]" by simp
  have idle: "for_loop (map int [Suc 0..<n])
     (\<lambda>row0 b. kernel_thread raw_data offs lens col_types col_lengths 1 num_cols stride row0 b)
     b = Inr b" for b
    by (rule idle_threads) auto
  have first: "kernel_thread raw_data offs lens col_types col_lengths 1 num_cols stride 0 bufs =
     (case kernel_cols raw_data offs lens col_types col_lengths 1 num_cols 0
                 (range_to num_cols) bufs of
            Inl e \<Rightarrow> Inl e
          | Inr (ex, bufs') \<Rightarrow> Inr bufs')"
    using s by (subst kernel_thread.simps) (auto simp: kernel_thread_idle split: sum.splits bool.splits)
  show ?thesis
    unfolding decode_all_columns_kernel_def n_def [symmetric] stride_def [symmetric] split
      for_loop_append
    by (simp add: first idle split: sum.splits prod.splits)
qed

lemmas kernel_eval = decode_cell_def decode_text_def bulk_copy_64bytes_def range_to_def
  range_step_def rd_def wr_def to_int32_def to_int64_def trim_start.simps trim_end.simps
  upt_conv_Cons

lemma decode_chunk_one_row:
  "decode_chunk columns col_types col_lengths (d_chunk, offs, lens, Suc 0) bufs =
     (case kernel_cols d_chunk offs lens col_types col_lengths 1 (int (length columns)) 0
             (range_to (int (length columns))) bufs of
        Inl e \<Rightarrow> Inl e
      | Inr (ex, bufs') \<Rightarrow>
          (case collect_columns columns 0 0 1 bufs' of
             Inl e \<Rightarrow> Inl e
           | Inr cols \<Rightarrow> Inr (bufs', cols)))"
  by (simp add: decode_chunk_def kernel_one_row split: sum.splits prod.splits)

subsection \<open>A table read in one window\<close>

lemma rows_per_chunk_pos: "0 < total_rows \<Longrightarrow> rows_per_chunk_of total_rows \<noteq> 0"
  by (simp add: rows_per_chunk_of_def)

lemma process_table_first_chunk_fails:
  assumes "columns \<noteq> []" and "0 < total_rows"
    and "initialize_device_buffers columns (rows_per_chunk_of total_rows) =
           Inr (bufs, tags, widths)"
    and "chunk_size_of (length buffer) (length columns) (rows_per_chunk_of total_rows) = cs"
    and "min (num_chunks_of total_rows) ((length buffer + cs - 1) div cs) = Suc k"
    and "read_and_parse_chunk (length columns) (rows_per_chunk_of total_rows) cs (start buffer) =
           Some (Inr (Some (w, offs, lens, Suc r), st'))"
    and "decode_chunk columns tags widths (w, offs, lens, Suc r) bufs = Inl e"
  shows "process_table columns total_rows buffer = Some (Inl e)"
  using assms rows_per_chunk_pos [of total_rows]
  by (simp add: process_table_def Let_def start_def)

lemma process_table_one_chunk:
  assumes "columns \<noteq> []" and "0 < total_rows"
    and "initialize_device_buffers columns (rows_per_chunk_of total_rows) =
           Inr (bufs, tags, widths)"
    and "chunk_size_of (length buffer) (length columns) (rows_per_chunk_of total_rows) = cs"
    and "min (num_chunks_of total_rows) ((length buffer + cs - 1) div cs) = Suc 0"
    and "read_and_parse_chunk (length columns) (rows_per_chunk_of total_rows) cs (start buffer) =
           Some (Inr (Some (w, offs, lens, Suc r), st'))"
    and "decode_chunk columns tags widths (w, offs, lens, Suc r) bufs = Inr (bufs', cols)"
  shows "process_table columns total_rows buffer = Some (Inr cols)"
  using assms rows_per_chunk_pos [of total_rows]
  by (simp add: process_table_def Let_def start_def)

lemma decoded_columns:
  "(case d of Inl e \<Rightarrow> Inl e | Inr (b, cols) \<Rightarrow> Inr cols) = Inr X \<Longrightarrow> \<exists>b. d = Inr (b, X)"
  by (cases d) auto

subsection \<open>The text scenario\<close>

lemma one_text_cell:
  "decode_all_columns_kernel 128 256 raw_data offs lens bufs col_types col_lengths 1 1 =
   (case kernel_cols raw_data offs lens col_types col_lengths 1 1 0 (range_to 1) bufs of
      Inl e \<Rightarrow> Inl e | Inr (ex, b) \<Rightarrow> Inr b)"
  using kernel_one_row [of 128 256 raw_data offs lens bufs col_types col_lengths 1]
  by simp

text \<open>
  The decode of one text cell, on a layout where the kernel and the host agree on the
  slot (a single text column). The fifteen bytes of the scenario give the range 2 to 5,
  packed as \<open>2 << 16 | 5\<close>, and the string \<open>pad\<close>.
\<close>

lemma pad_field_alone: "decode_one_text 16 pad_field = Inr (131077, [''pad''])"
  unfolding decode_one_text_def one_text_cell by code_simp

text \<open>No more bytes than the width are copied.\<close>

lemma text_capped_at_width:
  "decode_one_text 4 [97, 98, 99, 100, 101, 102] = Inr (4, [''abcd''])"
  unfolding decode_one_text_def one_text_cell by code_simp

text \<open>The first zero byte ends the text, and bytes up to 32 are trimmed at both ends.\<close>

lemma text_trimmed_on_device:
  "decode_one_text 8 [9, 97, 98, 0, 99] = Inr (65539, [''ab''])"
  unfolding decode_one_text_def one_text_cell by code_simp

text \<open>An empty range is stored as 0, and inner blanks are kept.\<close>

lemma text_blank_is_empty: "decode_one_text 8 [32, 32, 32] = Inr (0, [''''])"
  unfolding decode_one_text_def one_text_cell by code_simp

lemma text_inner_blank_kept: "decode_one_text 8 [97, 32, 98] = Inr (3, [''a b''])"
  unfolding decode_one_text_def one_text_cell by code_simp

text \<open>The host drops the bytes outside 32 to 126, then strips what is left.\<close>

lemma text_filtered_on_host: "decode_one_text 8 [97, 200, 98] = Inr (3, [''ab''])"
  unfolding decode_one_text_def one_text_cell by code_simp

lemma text_stripped_on_host: "decode_one_text 8 [200, 32, 97, 32, 200] = Inr (5, [''a''])"
  unfolding decode_one_text_def one_text_cell by code_simp

text \<open>
  The same fifteen bytes in the export of a table whose text column follows an integer
  column.
\<close>

lemma parse_int_pad_stream:
  "parse_binary_chunk int_pad_stream True = Some (Inr ([25, 33], [4, 15]))"
  by (simp add: int_pad_stream_def parse_eval)

lemma read_and_parse_int_pad_stream:
  assumes "0 < n"
  shows "\<exists>st'. read_and_parse_chunk 2 n 524288 (start int_pad_stream) =
     Some (Inr (Some (int_pad_stream, [25, 33], [4, 15], Suc 0), st'))"
proof -
  have len: "length int_pad_stream = 50" and ne: "int_pad_stream \<noteq> []"
    and rest: "drop 48 int_pad_stream = [255, 255]"
    by (simp_all add: int_pad_stream_def)
  have w: "first_window 524288 (start int_pad_stream) =
      (Some int_pad_stream, (start int_pad_stream)\<lparr>stream_pos := 50\<rparr>)"
    by (simp add: first_window_def stream_read_def start_def len ne)
  have a: "attempt_loop 3 524288 ((start int_pad_stream)\<lparr>stream_pos := 50\<rparr>) int_pad_stream ([], []) =
      Some (Inr (\<lparr>stream = int_pad_stream, stream_pos = 50, header_expected = False,
         remaining_data = Some [255, 255]\<rparr>, int_pad_stream, ([25, 33], [4, 15])))"
    by (simp add: attempt_loop_numeral start_def parse_int_pad_stream len py_drop_def rest)
  have "min (Suc 0) n = Suc 0"
    using assms by simp
  then show ?thesis
    by (simp add: read_and_parse_chunk_def w a finish_chunk_def)
qed

lemma layout_int_char16_columns:
  "initialize_device_buffers int_char16_columns n =
   Inr (\<lparr>int_outputs = replicate (n * 1) 0, str_outputs = replicate (n * 16) 0,
          str_null_pos = replicate (n * 1) 0\<rparr>, [0, 2], [4, 16])"
  by (simp add: initialize_device_buffers_def int_char16_columns_def resolve_column_def
      get_column_type_def get_column_length_def startswith_def nat_mult_distrib)

lemma decode_int_pad_stream_1:
  "decode_chunk int_char16_columns [0, 2] [4, 16] (int_pad_stream, [25, 33], [4, 15], Suc 0)
     \<lparr>int_outputs = replicate 1 0, str_outputs = replicate 16 0,
      str_null_pos = replicate 1 0\<rparr>
   = Inl OutOfBounds"
proof -
  have len: "int (length int_char16_columns) = 2"
    by (simp add: int_char16_columns_def)
  have "(case kernel_cols int_pad_stream [25, 33] [4, 15] [0, 2] [4, 16] 1 2 0 (range_to 2)
       \<lparr>int_outputs = replicate 1 0, str_outputs = replicate 16 0,
        str_null_pos = replicate 1 0\<rparr> of
      Inl e \<Rightarrow> Inl e
    | Inr (ex, bufs') \<Rightarrow>
        (case collect_columns int_char16_columns 0 0 1 bufs' of
           Inl e \<Rightarrow> Inl e
         | Inr cols \<Rightarrow> Inr (bufs', cols)))
   = Inl OutOfBounds"
    by code_simp
  then show ?thesis
    by (simp only: decode_chunk_one_row len)
qed

lemma decode_int_pad_stream_2:
  "\<exists>bufs'. decode_chunk int_char16_columns [0, 2] [4, 16] (int_pad_stream, [25, 33], [4, 15], Suc 0)
       \<lparr>int_outputs = replicate 2 0, str_outputs = replicate 32 0,
        str_null_pos = replicate 2 0\<rparr>
     = Inr (bufs', [(''id'', IntColumn [42]), (''c'', StrColumn [''''])])"
proof -
  have len: "int (length int_char16_columns) = 2"
    by (simp add: int_char16_columns_def)
  have "(case
      (case kernel_cols int_pad_stream [25, 33] [4, 15] [0, 2] [4, 16] 1 2 0 (range_to 2)
         \<lparr>int_outputs = replicate 2 0, str_outputs = replicate 32 0,
          str_null_pos = replicate 2 0\<rparr> of
        Inl e \<Rightarrow> Inl e
      | Inr (ex, bufs') \<Rightarrow>
          (case collect_columns int_char16_columns 0 0 1 bufs' of
             Inl e \<Rightarrow> Inl e
           | Inr cols \<Rightarrow> Inr (bufs', cols))) of
      Inl e \<Rightarrow> Inl e | Inr (b, cols) \<Rightarrow> Inr cols)
   = Inr [(''id'', IntColumn [42]), (''c'', StrColumn [''''])]"
    by code_simp
  then show ?thesis
    by (intro decoded_columns) (simp only: decode_chunk_one_row len)
qed

lemma export_int_pad_stream:
  "int_char16_columns \<noteq> []" "length int_char16_columns = 2" "length int_pad_stream = 50"
  "chunk_size_of 50 2 1 = 524288" "chunk_size_of 50 2 2 = 524288"
  by (simp_all add: int_char16_columns_def int_pad_stream_def chunk_size_of_def avg_row_size_def adjust_chunk_size_def)

lemma process_int_pad_stream_1:
  "process_table int_char16_columns 1 int_pad_stream = Some (Inl OutOfBounds)"
proof -
  have rows: "rows_per_chunk_of 1 = 1" "num_chunks_of 1 = 1"
    by (simp_all add: rows_per_chunk_of_def num_chunks_of_def)
  have l: "initialize_device_buffers int_char16_columns (rows_per_chunk_of 1) =
      Inr (\<lparr>int_outputs = replicate 1 0, str_outputs = replicate 16 0,
             str_null_pos = replicate 1 0\<rparr>, [0, 2], [4, 16])"
    unfolding rows by (simp add: layout_int_char16_columns)
  have c: "chunk_size_of (length int_pad_stream) (length int_char16_columns) (rows_per_chunk_of 1) = 524288"
    unfolding rows export_int_pad_stream by (rule refl)
  have k: "min (num_chunks_of 1) ((length int_pad_stream + 524288 - 1) div 524288) = Suc 0"
    unfolding rows export_int_pad_stream by simp
  obtain st' where r: "read_and_parse_chunk (length int_char16_columns) (rows_per_chunk_of 1) 524288
      (start int_pad_stream) = Some (Inr (Some (int_pad_stream, [25, 33], [4, 15], Suc 0), st'))"
    unfolding rows export_int_pad_stream using read_and_parse_int_pad_stream [of 1] by auto
  show ?thesis
    by (rule process_table_first_chunk_fails [OF export_int_pad_stream(1) _ l c k r decode_int_pad_stream_1]) simp
qed

lemma process_int_pad_stream_2:
  "process_table int_char16_columns 2 int_pad_stream = Some (Inr [(''id'', IntColumn [42]), (''c'', StrColumn [''''])])"
proof -
  have rows: "rows_per_chunk_of 2 = 2" "num_chunks_of 2 = 1"
    by (simp_all add: rows_per_chunk_of_def num_chunks_of_def)
  have l: "initialize_device_buffers int_char16_columns (rows_per_chunk_of 2) =
      Inr (\<lparr>int_outputs = replicate 2 0, str_outputs = replicate 32 0,
             str_null_pos = replicate 2 0\<rparr>, [0, 2], [4, 16])"
    unfolding rows by (simp add: layout_int_char16_columns)
  have c: "chunk_size_of (length int_pad_stream) (length int_char16_columns) (rows_per_chunk_of 2) = 524288"
    unfolding rows export_int_pad_stream by (rule refl)
  have k: "min (num_chunks_of 2) ((length int_pad_stream + 524288 - 1) div 524288) = Suc 0"
    unfolding rows export_int_pad_stream by simp
  obtain st' where r: "read_and_parse_chunk (length int_char16_columns) (rows_per_chunk_of 2) 524288
      (start int_pad_stream) = Some (Inr (Some (int_pad_stream, [25, 33], [4, 15], Suc 0), st'))"
    unfolding rows export_int_pad_stream using read_and_parse_int_pad_stream [of 2] by auto
  obtain bufs' where d: "decode_chunk int_char16_columns [0, 2] [4, 16] (int_pad_stream, [25, 33], [4, 15], Suc 0)
       \<lparr>int_outputs = replicate 2 0, str_outputs = replicate 32 0,
        str_null_pos = replicate 2 0\<rparr>
     = Inr (bufs', [(''id'', IntColumn [42]), (''c'', StrColumn [''''])])"
    using decode_int_pad_stream_2 by blast
  show ?thesis
    by (rule process_table_one_chunk [OF export_int_pad_stream(1) _ l c k r d]) simp
qed

text \<open>
  C6: the fifteen bytes of the scenario, in a \<open>character(16)\<close> column that follows an
  integer column, do not decode to \<open>pad\<close>. The kernel copies the bytes to the slot of
  column 1 and stores the range index there; the buffers are sized and read by the
  position of the column among the text columns, which is 0. With the buffers sized for
  the one row of the table the copy leaves the arena; with room for two rows the host
  reads the untouched slot 0, and the text is empty.
\<close>

theorem pad_text_lost_after_integer_column:
  "process_table int_char16_columns 1 int_pad_stream = Some (Inl OutOfBounds) \<and>
   process_table int_char16_columns 2 int_pad_stream =
     Some (Inr [(''id'', IntColumn [42]), (''c'', StrColumn [''''])])"
  by (intro conjI process_int_pad_stream_1 process_int_pad_stream_2)

subsection \<open>NULL fields\<close>

text \<open>
  Stage by stage: the segmenter records the span (0, -1) and goes on right after the
  length word; the kernel writes 0 into the slot that it computes for the cell, when
  that slot lies inside the buffer; the host turns the range index 0 into the empty
  string.
\<close>

lemma rd_nat: "i < length xs \<Longrightarrow> rd xs (int i) = Inr (xs ! i)"
  by (simp add: rd_def)

lemma wr_nat: "i < length xs \<Longrightarrow> wr xs (int i) v = Inr (xs[i := v])"
  by (simp add: wr_def)

lemma null_span:
  assumes "0 \<le> pos" "pos + 4 \<le> int (length chunk)"
    and "take 4 (drop (nat pos) chunk) = [0xFF, 0xFF, 0xFF, 0xFF]"
  shows "parse_fields chunk (Suc n) pos offs lens =
         parse_fields chunk n (pos + 4) (offs @ [0]) (lens @ [- 1])"
proof -
  have len: "nat pos + 4 \<le> length chunk" using assms(1,2) by linarith
  have nth: "chunk ! (nat pos + k) = take 4 (drop (nat pos) chunk) ! k" if "k < 4" for k
    using that len by simp
  have b: "chunk ! nat pos = 0xFF" "chunk ! nat (pos + 1) = 0xFF"
    "chunk ! nat (pos + 2) = 0xFF" "chunk ! nat (pos + 3) = 0xFF"
    using nth [of 0] nth [of 1] nth [of 2] nth [of 3] assms(1)
    by (simp_all add: assms(3) nat_add_distrib)
  have f: "field_len_of 0xFF 0xFF 0xFF 0xFF = - 1"
    by (simp add: field_len_of_def be32_def)
  show ?thesis
    using assms(1,2) by (simp add: rd4_in_range b f)
qed

lemma cell_index:
  fixes row col num_cols :: nat
  assumes "row * num_cols + col < length xs"
  shows "rd xs (int row * int num_cols + int col) = Inr (xs ! (row * num_cols + col))"
    and "\<not> int (length xs) \<le> int row * int num_cols + int col"
  using rd_nat [OF assms] assms by (simp_all flip: of_nat_mult of_nat_add)

lemma cell_slot:
  fixes row col chunk_size :: nat
  assumes "col * chunk_size + row < length xs"
  shows "wr xs (int col * int chunk_size + int row) v = Inr (xs[col * chunk_size + row := v])"
  using wr_nat [OF assms] by (simp flip: of_nat_mult of_nat_add)

lemma null_numeric_cell:
  fixes row col num_cols chunk_size :: nat
  assumes "row * num_cols + col < length offs" "row * num_cols + col < length lens"
    and "lens ! (row * num_cols + col) = - 1"
    and "col < length col_types" "col_types ! col \<le> 1"
    and "col * chunk_size + row < length (int_outputs bufs)"
  shows "decode_cell raw_data offs lens col_types col_lengths (int chunk_size) (int num_cols)
           (int row) (int col) bufs =
         Inr (False, bufs\<lparr>int_outputs := (int_outputs bufs)[col * chunk_size + row := 0]\<rparr>)"
  unfolding decode_cell_def
  using assms(3,5)
  by (simp add: cell_index [OF assms(1)] cell_index(1) [OF assms(2)] rd_nat [OF assms(4)]
      cell_slot [OF assms(6)])

lemma null_text_cell:
  fixes row col num_cols chunk_size :: nat
  assumes "row * num_cols + col < length offs" "row * num_cols + col < length lens"
    and "lens ! (row * num_cols + col) = - 1"
    and "col < length col_types" "\<not> col_types ! col \<le> 1" "col < length col_lengths"
    and "col * chunk_size + row < length (str_null_pos bufs)"
  shows "decode_cell raw_data offs lens col_types col_lengths (int chunk_size) (int num_cols)
           (int row) (int col) bufs =
         Inr (False, bufs\<lparr>str_null_pos := (str_null_pos bufs)[col * chunk_size + row := 0]\<rparr>)"
  unfolding decode_cell_def
  using assms(3,5)
  by (simp add: cell_index [OF assms(1)] cell_index(1) [OF assms(2)] rd_nat [OF assms(4)]
      rd_nat [OF assms(6)] cell_slot [OF assms(7)])

lemma null_text_of_row: "text_of_row row_bytes 0 = ''''"
  by (simp add: text_of_row_def)

text \<open>The whole run, on a table with a NULL text field.\<close>

lemma parse_null_text_stream:
  "parse_binary_chunk null_text_stream True = Some (Inr ([25, 33, 0, 44], [4, 3, - 1, 2]))"
  by (simp add: null_text_stream_def parse_eval)

lemma read_and_parse_null_text_stream:
  assumes "0 < n"
  shows "\<exists>st'. read_and_parse_chunk 4 n 524288 (start null_text_stream) =
     Some (Inr (Some (null_text_stream, [25, 33, 0, 44], [4, 3, - 1, 2], Suc 0), st'))"
proof -
  have len: "length null_text_stream = 48" and ne: "null_text_stream \<noteq> []"
    and rest: "drop 46 null_text_stream = [255, 255]"
    by (simp_all add: null_text_stream_def)
  have w: "first_window 524288 (start null_text_stream) =
      (Some null_text_stream, (start null_text_stream)\<lparr>stream_pos := 48\<rparr>)"
    by (simp add: first_window_def stream_read_def start_def len ne)
  have a: "attempt_loop 3 524288 ((start null_text_stream)\<lparr>stream_pos := 48\<rparr>) null_text_stream ([], []) =
      Some (Inr (\<lparr>stream = null_text_stream, stream_pos = 48, header_expected = False,
         remaining_data = Some [255, 255]\<rparr>, null_text_stream, ([25, 33, 0, 44], [4, 3, - 1, 2])))"
    by (simp add: attempt_loop_numeral start_def parse_null_text_stream len py_drop_def rest)
  have "min (Suc 0) n = Suc 0"
    using assms by simp
  then show ?thesis
    by (simp add: read_and_parse_chunk_def w a finish_chunk_def)
qed

lemma layout_null_text_columns:
  "initialize_device_buffers null_text_columns n =
   Inr (\<lparr>int_outputs = replicate (n * 1) 0, str_outputs = replicate (n * 24) 0,
          str_null_pos = replicate (n * 3) 0\<rparr>, [0, 2, 2, 2], [4, 8, 8, 8])"
  by (simp add: initialize_device_buffers_def null_text_columns_def resolve_column_def
      get_column_type_def get_column_length_def startswith_def nat_mult_distrib)

lemma decode_null_text_stream_1:
  "decode_chunk null_text_columns [0, 2, 2, 2] [4, 8, 8, 8] (null_text_stream, [25, 33, 0, 44], [4, 3, - 1, 2], Suc 0)
     \<lparr>int_outputs = replicate 1 0, str_outputs = replicate 24 0,
      str_null_pos = replicate 3 0\<rparr>
   = Inl OutOfBounds"
proof -
  have len: "int (length null_text_columns) = 4"
    by (simp add: null_text_columns_def)
  have "(case kernel_cols null_text_stream [25, 33, 0, 44] [4, 3, - 1, 2] [0, 2, 2, 2] [4, 8, 8, 8] 1 4 0 (range_to 4)
       \<lparr>int_outputs = replicate 1 0, str_outputs = replicate 24 0,
        str_null_pos = replicate 3 0\<rparr> of
      Inl e \<Rightarrow> Inl e
    | Inr (ex, bufs') \<Rightarrow>
        (case collect_columns null_text_columns 0 0 1 bufs' of
           Inl e \<Rightarrow> Inl e
         | Inr cols \<Rightarrow> Inr (bufs', cols)))
   = Inl OutOfBounds"
    by code_simp
  then show ?thesis
    by (simp only: decode_chunk_one_row len)
qed

lemma decode_null_text_stream_2:
  "\<exists>bufs'. decode_chunk null_text_columns [0, 2, 2, 2] [4, 8, 8, 8] (null_text_stream, [25, 33, 0, 44], [4, 3, - 1, 2], Suc 0)
       \<lparr>int_outputs = replicate 2 0, str_outputs = replicate 48 0,
        str_null_pos = replicate 6 0\<rparr>
     = Inr (bufs', [(''id'', IntColumn [42]), (''a'', StrColumn ['''']),
           (''b'', StrColumn [''abc'']), (''c'', StrColumn [''''])])"
proof -
  have len: "int (length null_text_columns) = 4"
    by (simp add: null_text_columns_def)
  have "(case
      (case kernel_cols null_text_stream [25, 33, 0, 44] [4, 3, - 1, 2] [0, 2, 2, 2] [4, 8, 8, 8] 1 4 0 (range_to 4)
         \<lparr>int_outputs = replicate 2 0, str_outputs = replicate 48 0,
          str_null_pos = replicate 6 0\<rparr> of
        Inl e \<Rightarrow> Inl e
      | Inr (ex, bufs') \<Rightarrow>
          (case collect_columns null_text_columns 0 0 1 bufs' of
             Inl e \<Rightarrow> Inl e
           | Inr cols \<Rightarrow> Inr (bufs', cols))) of
      Inl e \<Rightarrow> Inl e | Inr (b, cols) \<Rightarrow> Inr cols)
   = Inr [(''id'', IntColumn [42]), (''a'', StrColumn ['''']),
           (''b'', StrColumn [''abc'']), (''c'', StrColumn [''''])]"
    by code_simp
  then show ?thesis
    by (intro decoded_columns) (simp only: decode_chunk_one_row len)
qed

lemma export_null_text_stream:
  "null_text_columns \<noteq> []" "length null_text_columns = 4" "length null_text_stream = 48"
  "chunk_size_of 48 4 1 = 524288" "chunk_size_of 48 4 2 = 524288"
  by (simp_all add: null_text_columns_def null_text_stream_def chunk_size_of_def avg_row_size_def adjust_chunk_size_def)

lemma process_null_text_stream_1:
  "process_table null_text_columns 1 null_text_stream = Some (Inl OutOfBounds)"
proof -
  have rows: "rows_per_chunk_of 1 = 1" "num_chunks_of 1 = 1"
    by (simp_all add: rows_per_chunk_of_def num_chunks_of_def)
  have l: "initialize_device_buffers null_text_columns (rows_per_chunk_of 1) =
      Inr (\<lparr>int_outputs = replicate 1 0, str_outputs = replicate 24 0,
             str_null_pos = replicate 3 0\<rparr>, [0, 2, 2, 2], [4, 8, 8, 8])"
    unfolding rows by (simp add: layout_null_text_columns)
  have c: "chunk_size_of (length null_text_stream) (length null_text_columns) (rows_per_chunk_of 1) = 524288"
    unfolding rows export_null_text_stream by (rule refl)
  have k: "min (num_chunks_of 1) ((length null_text_stream + 524288 - 1) div 524288) = Suc 0"
    unfolding rows export_null_text_stream by simp
  obtain st' where r: "read_and_parse_chunk (length null_text_columns) (rows_per_chunk_of 1) 524288
      (start null_text_stream) = Some (Inr (Some (null_text_stream, [25, 33, 0, 44], [4, 3, - 1, 2], Suc 0), st'))"
    unfolding rows export_null_text_stream using read_and_parse_null_text_stream [of 1] by auto
  show ?thesis
    by (rule process_table_first_chunk_fails [OF export_null_text_stream(1) _ l c k r decode_null_text_stream_1]) simp
qed

lemma process_null_text_stream_2:
  "process_table null_text_columns 2 null_text_stream = Some (Inr [(''id'', IntColumn [42]), (''a'', StrColumn ['''']),
           (''b'', StrColumn [''abc'']), (''c'', StrColumn [''''])])"
proof -
  have rows: "rows_per_chunk_of 2 = 2" "num_chunks_of 2 = 1"
    by (simp_all add: rows_per_chunk_of_def num_chunks_of_def)
  have l: "initialize_device_buffers null_text_columns (rows_per_chunk_of 2) =
      Inr (\<lparr>int_outputs = replicate 2 0, str_outputs = replicate 48 0,
             str_null_pos = replicate 6 0\<rparr>, [0, 2, 2, 2], [4, 8, 8, 8])"
    unfolding rows by (simp add: layout_null_text_columns)
  have c: "chunk_size_of (length null_text_stream) (length null_text_columns) (rows_per_chunk_of 2) = 524288"
    unfolding rows export_null_text_stream by (rule refl)
  have k: "min (num_chunks_of 2) ((length null_text_stream + 524288 - 1) div 524288) = Suc 0"
    unfolding rows export_null_text_stream by simp
  obtain st' where r: "read_and_parse_chunk (length null_text_columns) (rows_per_chunk_of 2) 524288
      (start null_text_stream) = Some (Inr (Some (null_text_stream, [25, 33, 0, 44], [4, 3, - 1, 2], Suc 0), st'))"
    unfolding rows export_null_text_stream using read_and_parse_null_text_stream [of 2] by auto
  obtain bufs' where d: "decode_chunk null_text_columns [0, 2, 2, 2] [4, 8, 8, 8] (null_text_stream, [25, 33, 0, 44], [4, 3, - 1, 2], Suc 0)
       \<lparr>int_outputs = replicate 2 0, str_outputs = replicate 48 0,
        str_null_pos = replicate 6 0\<rparr>
     = Inr (bufs', [(''id'', IntColumn [42]), (''a'', StrColumn ['''']),
           (''b'', StrColumn [''abc'']), (''c'', StrColumn [''''])])"
    using decode_null_text_stream_2 by blast
  show ?thesis
    by (rule process_table_one_chunk [OF export_null_text_stream(1) _ l c k r d]) simp
qed

text \<open>The whole run, on a table with a NULL integer field.\<close>

lemma parse_null_int_stream:
  "parse_binary_chunk null_int_stream True = Some (Inr ([25, 32, 0, 44], [3, 4, - 1, 4]))"
  by (simp add: null_int_stream_def parse_eval)

lemma read_and_parse_null_int_stream:
  assumes "0 < n"
  shows "\<exists>st'. read_and_parse_chunk 4 n 524288 (start null_int_stream) =
     Some (Inr (Some (null_int_stream, [25, 32, 0, 44], [3, 4, - 1, 4], Suc 0), st'))"
proof -
  have len: "length null_int_stream = 50" and ne: "null_int_stream \<noteq> []"
    and rest: "drop 48 null_int_stream = [255, 255]"
    by (simp_all add: null_int_stream_def)
  have w: "first_window 524288 (start null_int_stream) =
      (Some null_int_stream, (start null_int_stream)\<lparr>stream_pos := 50\<rparr>)"
    by (simp add: first_window_def stream_read_def start_def len ne)
  have a: "attempt_loop 3 524288 ((start null_int_stream)\<lparr>stream_pos := 50\<rparr>) null_int_stream ([], []) =
      Some (Inr (\<lparr>stream = null_int_stream, stream_pos = 50, header_expected = False,
         remaining_data = Some [255, 255]\<rparr>, null_int_stream, ([25, 32, 0, 44], [3, 4, - 1, 4])))"
    by (simp add: attempt_loop_numeral start_def parse_null_int_stream len py_drop_def rest)
  have "min (Suc 0) n = Suc 0"
    using assms by simp
  then show ?thesis
    by (simp add: read_and_parse_chunk_def w a finish_chunk_def)
qed

lemma layout_null_int_columns:
  "initialize_device_buffers null_int_columns n =
   Inr (\<lparr>int_outputs = replicate (n * 3) 0, str_outputs = replicate (n * 8) 0,
          str_null_pos = replicate (n * 1) 0\<rparr>, [2, 0, 0, 0], [8, 4, 4, 4])"
  by (simp add: initialize_device_buffers_def null_int_columns_def resolve_column_def
      get_column_type_def get_column_length_def startswith_def nat_mult_distrib)

lemma decode_null_int_stream_1:
  "decode_chunk null_int_columns [2, 0, 0, 0] [8, 4, 4, 4] (null_int_stream, [25, 32, 0, 44], [3, 4, - 1, 4], Suc 0)
     \<lparr>int_outputs = replicate 3 0, str_outputs = replicate 8 0,
      str_null_pos = replicate 1 0\<rparr>
   = Inl OutOfBounds"
proof -
  have len: "int (length null_int_columns) = 4"
    by (simp add: null_int_columns_def)
  have "(case kernel_cols null_int_stream [25, 32, 0, 44] [3, 4, - 1, 4] [2, 0, 0, 0] [8, 4, 4, 4] 1 4 0 (range_to 4)
       \<lparr>int_outputs = replicate 3 0, str_outputs = replicate 8 0,
        str_null_pos = replicate 1 0\<rparr> of
      Inl e \<Rightarrow> Inl e
    | Inr (ex, bufs') \<Rightarrow>
        (case collect_columns null_int_columns 0 0 1 bufs' of
           Inl e \<Rightarrow> Inl e
         | Inr cols \<Rightarrow> Inr (bufs', cols)))
   = Inl OutOfBounds"
    by code_simp
  then show ?thesis
    by (simp only: decode_chunk_one_row len)
qed

lemma decode_null_int_stream_2:
  "\<exists>bufs'. decode_chunk null_int_columns [2, 0, 0, 0] [8, 4, 4, 4] (null_int_stream, [25, 32, 0, 44], [3, 4, - 1, 4], Suc 0)
       \<lparr>int_outputs = replicate 6 0, str_outputs = replicate 16 0,
        str_null_pos = replicate 2 0\<rparr>
     = Inr (bufs', [(''a'', StrColumn [''abc'']), (''m'', IntColumn [0]),
           (''n'', IntColumn [42]), (''k'', IntColumn [0])])"
proof -
  have len: "int (length null_int_columns) = 4"
    by (simp add: null_int_columns_def)
  have "(case
      (case kernel_cols null_int_stream [25, 32, 0, 44] [3, 4, - 1, 4] [2, 0, 0, 0] [8, 4, 4, 4] 1 4 0 (range_to 4)
         \<lparr>int_outputs = replicate 6 0, str_outputs = replicate 16 0,
          str_null_pos = replicate 2 0\<rparr> of
        Inl e \<Rightarrow> Inl e
      | Inr (ex, bufs') \<Rightarrow>
          (case collect_columns null_int_columns 0 0 1 bufs' of
             Inl e \<Rightarrow> Inl e
           | Inr cols \<Rightarrow> Inr (bufs', cols))) of
      Inl e \<Rightarrow> Inl e | Inr (b, cols) \<Rightarrow> Inr cols)
   = Inr [(''a'', StrColumn [''abc'']), (''m'', IntColumn [0]),
           (''n'', IntColumn [42]), (''k'', IntColumn [0])]"
    by code_simp
  then show ?thesis
    by (intro decoded_columns) (simp only: decode_chunk_one_row len)
qed

lemma export_null_int_stream:
  "null_int_columns \<noteq> []" "length null_int_columns = 4" "length null_int_stream = 50"
  "chunk_size_of 50 4 1 = 524288" "chunk_size_of 50 4 2 = 524288"
  by (simp_all add: null_int_columns_def null_int_stream_def chunk_size_of_def avg_row_size_def adjust_chunk_size_def)

lemma process_null_int_stream_1:
  "process_table null_int_columns 1 null_int_stream = Some (Inl OutOfBounds)"
proof -
  have rows: "rows_per_chunk_of 1 = 1" "num_chunks_of 1 = 1"
    by (simp_all add: rows_per_chunk_of_def num_chunks_of_def)
  have l: "initialize_device_buffers null_int_columns (rows_per_chunk_of 1) =
      Inr (\<lparr>int_outputs = replicate 3 0, str_outputs = replicate 8 0,
             str_null_pos = replicate 1 0\<rparr>, [2, 0, 0, 0], [8, 4, 4, 4])"
    unfolding rows by (simp add: layout_null_int_columns)
  have c: "chunk_size_of (length null_int_stream) (length null_int_columns) (rows_per_chunk_of 1) = 524288"
    unfolding rows export_null_int_stream by (rule refl)
  have k: "min (num_chunks_of 1) ((length null_int_stream + 524288 - 1) div 524288) = Suc 0"
    unfolding rows export_null_int_stream by simp
  obtain st' where r: "read_and_parse_chunk (length null_int_columns) (rows_per_chunk_of 1) 524288
      (start null_int_stream) = Some (Inr (Some (null_int_stream, [25, 32, 0, 44], [3, 4, - 1, 4], Suc 0), st'))"
    unfolding rows export_null_int_stream using read_and_parse_null_int_stream [of 1] by auto
  show ?thesis
    by (rule process_table_first_chunk_fails [OF export_null_int_stream(1) _ l c k r decode_null_int_stream_1]) simp
qed

lemma process_null_int_stream_2:
  "process_table null_int_columns 2 null_int_stream = Some (Inr [(''a'', StrColumn [''abc'']), (''m'', IntColumn [0]),
           (''n'', IntColumn [42]), (''k'', IntColumn [0])])"
proof -
  have rows: "rows_per_chunk_of 2 = 2" "num_chunks_of 2 = 1"
    by (simp_all add: rows_per_chunk_of_def num_chunks_of_def)
  have l: "initialize_device_buffers null_int_columns (rows_per_chunk_of 2) =
      Inr (\<lparr>int_outputs = replicate 6 0, str_outputs = replicate 16 0,
             str_null_pos = replicate 2 0\<rparr>, [2, 0, 0, 0], [8, 4, 4, 4])"
    unfolding rows by (simp add: layout_null_int_columns)
  have c: "chunk_size_of (length null_int_stream) (length null_int_columns) (rows_per_chunk_of 2) = 524288"
    unfolding rows export_null_int_stream by (rule refl)
  have k: "min (num_chunks_of 2) ((length null_int_stream + 524288 - 1) div 524288) = Suc 0"
    unfolding rows export_null_int_stream by simp
  obtain st' where r: "read_and_parse_chunk (length null_int_columns) (rows_per_chunk_of 2) 524288
      (start null_int_stream) = Some (Inr (Some (null_int_stream, [25, 32, 0, 44], [3, 4, - 1, 4], Suc 0), st'))"
    unfolding rows export_null_int_stream using read_and_parse_null_int_stream [of 2] by auto
  obtain bufs' where d: "decode_chunk null_int_columns [2, 0, 0, 0] [8, 4, 4, 4] (null_int_stream, [25, 32, 0, 44], [3, 4, - 1, 4], Suc 0)
       \<lparr>int_outputs = replicate 6 0, str_outputs = replicate 16 0,
        str_null_pos = replicate 2 0\<rparr>
     = Inr (bufs', [(''a'', StrColumn [''abc'']), (''m'', IntColumn [0]),
           (''n'', IntColumn [42]), (''k'', IntColumn [0])])"
    using decode_null_int_stream_2 by blast
  show ?thesis
    by (rule process_table_one_chunk [OF export_null_int_stream(1) _ l c k r d]) simp
qed

text \<open>
  C5: a NULL field is segmented as claimed, and decoded as claimed only when the kernel
  and the host agree on the slot of its column. In the row 42, \<open>abc\<close>, NULL, \<open>de\<close> the
  NULL field gets the span (0, -1) and the next field starts right after its length
  word; but with the buffers sized for the one row of the table the run ends in a write
  outside the arena, and with room for two rows the NULL column \<open>b\<close> is read from the
  slot where the kernel put \<open>abc\<close>, while \<open>a\<close> and \<open>c\<close> come out empty. In the row
  \<open>abc\<close>, 42, NULL, 7 the NULL integer column \<open>n\<close> comes out as 42, and 42 and 7 as 0.
\<close>

theorem null_field_reads_neighbour_slot:
  "parse_binary_chunk null_text_stream True = Some (Inr ([25, 33, 0, 44], [4, 3, - 1, 2])) \<and>
   process_table null_text_columns 1 null_text_stream = Some (Inl OutOfBounds) \<and>
   process_table null_text_columns 2 null_text_stream =
     Some (Inr [(''id'', IntColumn [42]), (''a'', StrColumn ['''']),
                (''b'', StrColumn [''abc'']), (''c'', StrColumn [''''])]) \<and>
   parse_binary_chunk null_int_stream True = Some (Inr ([25, 32, 0, 44], [3, 4, - 1, 4])) \<and>
   process_table null_int_columns 1 null_int_stream = Some (Inl OutOfBounds) \<and>
   process_table null_int_columns 2 null_int_stream =
     Some (Inr [(''a'', StrColumn [''abc'']), (''m'', IntColumn [0]),
                (''n'', IntColumn [42]), (''k'', IntColumn [0])])"
  by (intro conjI parse_null_text_stream process_null_text_stream_1 process_null_text_stream_2
      parse_null_int_stream process_null_int_stream_1 process_null_int_stream_2)

subsection \<open>The first scenario\<close>

lemma parse_scenario: "parse_binary_chunk scenario True = Some (Inr ([25, 33], [4, 5]))"
  by (simp add: scenario_def parse_eval)

lemma len_scenario: "length scenario = 40"
  by (simp add: scenario_def)

lemma drop_scenario: "drop 38 scenario = [255, 255]"
  by (simp add: scenario_def)

lemma ne_scenario: "scenario \<noteq> []"
  by (simp add: scenario_def)

lemma first_window_scenario:
  "first_window 524288 (start scenario) = (Some scenario, (start scenario)\<lparr>stream_pos := 40\<rparr>)"
  by (simp add: first_window_def stream_read_def start_def len_scenario ne_scenario)

lemma attempt_loop_scenario:
  "attempt_loop 3 524288 ((start scenario)\<lparr>stream_pos := 40\<rparr>) scenario ([], []) =
   Some (Inr (\<lparr>stream = scenario, stream_pos = 40, header_expected = False, remaining_data = Some [255, 255]\<rparr>,
      scenario, ([25, 33], [4, 5])))"
  by (simp add: attempt_loop_numeral start_def parse_scenario len_scenario py_drop_def drop_scenario)

lemma chunk_size_scenario:
  "n \<le> 4096 \<Longrightarrow> chunk_size_of 40 2 n = 524288"
  by (simp add: chunk_size_of_def avg_row_size_def adjust_chunk_size_def)

lemma read_and_parse_scenario:
  "read_and_parse_chunk 2 (Suc n) 524288 (start scenario) =
   Some (Inr (Some (scenario, [25, 33], [4, 5], Suc 0),
     \<lparr>stream = scenario, stream_pos = 40, header_expected = False, remaining_data = Some [255, 255]\<rparr>))"
  by (simp add: read_and_parse_chunk_def first_window_scenario attempt_loop_scenario finish_chunk_def)

lemma layout_int_text:
  "initialize_device_buffers int_text_columns n =
   Inr (\<lparr>int_outputs = replicate n 0, str_outputs = replicate (n * 1024) 0,
          str_null_pos = replicate n 0\<rparr>, [0, 2], [4, 1024])"
  by (simp add: initialize_device_buffers_def int_text_columns_def resolve_column_def
      get_column_type_def get_column_length_def startswith_def)

lemma decode_scenario_1:
  "decode_chunk int_text_columns [0, 2] [4, 1024] (scenario, [25, 33], [4, 5], Suc 0)
     \<lparr>int_outputs = replicate 1 0, str_outputs = replicate 1024 0, str_null_pos = replicate 1 0\<rparr>
   = Inl OutOfBounds"
proof -
  have "kernel_cols scenario [25, 33] [4, 5] [0, 2] [4, 1024] 1 2 0 (range_to 2)
     \<lparr>int_outputs = replicate 1 0, str_outputs = replicate 1024 0, str_null_pos = replicate 1 0\<rparr>
   = Inl OutOfBounds"
    by code_simp
  then show ?thesis
    by (simp add: decode_chunk_one_row int_text_columns_def)
qed

lemma length_int_text_columns: "length int_text_columns = 2"
  by (simp add: int_text_columns_def)

lemma process_table_one_row:
  "process_table int_text_columns 1 scenario = Some (Inl OutOfBounds)"
  using read_and_parse_scenario [of 0] decode_scenario_1
  by (simp add: process_table_def rows_per_chunk_of_def num_chunks_of_def layout_int_text
      chunk_size_scenario len_scenario start_def length_int_text_columns Let_def)

lemma kernel_scenario_n:
  assumes "2 \<le> n"
  shows "kernel_cols scenario [25, 33] [4, 5] [0, 2] [4, 1024] 1 2 0 (range_to 2)
     \<lparr>int_outputs = replicate n 0, str_outputs = replicate (n * 1024) 0, str_null_pos = replicate n 0\<rparr>
   = Inr (False, \<lparr>int_outputs = (replicate n 0)[0 := 42],
        str_outputs = (replicate (n * 1024) 0)[1024 := 104, 1025 := 101, 1026 := 108, 1027 := 108, 1028 := 111],
        str_null_pos = (replicate n 0)[1 := 5]\<rparr>)"
  using assms
  by (simp add: scenario_def kernel_eval decode_int32_def check_bounds_def rd4_def be32_def)

lemma collect_scenario_n:
  assumes "2 \<le> n"
  shows "collect_columns int_text_columns 0 0 1
     \<lparr>int_outputs = (replicate n 0)[0 := 42],
        str_outputs = (replicate (n * 1024) 0)[1024 := 104, 1025 := 101, 1026 := 108, 1027 := 108, 1028 := 111],
        str_null_pos = (replicate n 0)[1 := 5]\<rparr>
   = Inr [(''id'', IntColumn [42]), (''t'', StrColumn [''''])]"
  using assms
  by (simp add: int_text_columns_def get_column_type_def get_column_length_def startswith_def
      copy_to_host_def py_slice_def text_of_row_def upt_conv_Cons take_Suc_conv_app_nth)

lemma decode_scenario_n:
  assumes "2 \<le> n"
  shows "\<exists>bufs'. decode_chunk int_text_columns [0, 2] [4, 1024] (scenario, [25, 33], [4, 5], Suc 0)
     \<lparr>int_outputs = replicate n 0, str_outputs = replicate (n * 1024) 0, str_null_pos = replicate n 0\<rparr>
   = Inr (bufs', [(''id'', IntColumn [42]), (''t'', StrColumn [''''])])"
  using kernel_scenario_n [OF assms] collect_scenario_n [OF assms]
  by (simp add: decode_chunk_one_row length_int_text_columns)

text \<open>
  C1: on the stream of the scenario with an integer and a text column, the result is
  never one row with 42 and \<open>hello\<close>. The kernel addresses the arena and the range index
  of the text column by its position among all columns (1), the buffers are sized and
  read by its position among the text columns (0). With the buffers sized for the one
  row of the table the text cell is written outside the arena; with room for more rows
  the write lands in a slot that the host does not read, and the text is empty.
\<close>

theorem scenario_text_column_lost:
  "process_table int_text_columns total_rows scenario =
    (if total_rows = 0 then Some (Inl ZeroDivisionError)
     else if total_rows = 1 then Some (Inl OutOfBounds)
     else Some (Inr [(''id'', IntColumn [42]), (''t'', StrColumn [''''])]))"
proof -
  consider "total_rows = 0" | "total_rows = 1" | "2 \<le> total_rows" by linarith
  then show ?thesis
  proof cases
    case 1
    then show ?thesis by (simp add: process_table_def rows_per_chunk_of_def)
  next
    case 2
    then show ?thesis using process_table_one_row by simp
  next
    case 3
    define n where "n = rows_per_chunk_of total_rows"
    have n: "2 \<le> n" "n \<le> 4096" using 3 by (simp_all add: n_def rows_per_chunk_of_def)
    then obtain m where m: "n = Suc m" by (cases n) auto
    have "n div n \<le> (total_rows + n - 1) div n"
      using 3 by (intro div_le_mono) simp
    then have "1 \<le> num_chunks_of total_rows"
      using n by (simp add: num_chunks_of_def n_def [symmetric])
    then have nc: "min (num_chunks_of total_rows) (Suc 0) = Suc 0"
      by simp
    obtain bufs' where d: "decode_chunk int_text_columns [0, 2] [4, 1024] (scenario, [25, 33], [4, 5], Suc 0)
     \<lparr>int_outputs = replicate n 0, str_outputs = replicate (n * 1024) 0, str_null_pos = replicate n 0\<rparr>
      = Inr (bufs', [(''id'', IntColumn [42]), (''t'', StrColumn [''''])])"
      using decode_scenario_n [OF n(1)] by blast
    show ?thesis
      using 3 n read_and_parse_scenario [of m] d nc unfolding m [symmetric]
      by (simp add: process_table_def n_def [symmetric] layout_int_text
        chunk_size_scenario len_scenario start_def length_int_text_columns Let_def)
  qed
qed

end
